theory Spec2Isabelle
  imports Complex_Main "HOL-Library.Sublist"
begin

section \<open>Platform values used by the scripts\<close>

text \<open>
  The repository is three browser scripts: a table controller that keeps its state in
  the query string (\<^verbatim>\<open>src/unnamed/part_000\<close>), a table controller that keeps its
  state in the fields of the form \<^verbatim>\<open>#qform\<close> (\<^verbatim>\<open>src/unnamed/part_001\<close>), and a
  chart widget (\<^verbatim>\<open>src/static/storage.js\<close>).

  Strings are byte strings: a JavaScript string is read as its UTF-8 encoding, which is
  what \<^verbatim>\<open>encodeURIComponent\<close> works on. A JavaScript string may also hold a surrogate
  code unit without its partner; it is read as the three bytes \<^verbatim>\<open>ED\<close>, \<^verbatim>\<open>A0..BF\<close>,
  \<^verbatim>\<open>80..BF\<close> (generalised UTF-8), which UTF-8 proper never produces.
  \<^verbatim>\<open>getAttribute\<close> returns \<^verbatim>\<open>null\<close> for a missing attribute, modelled by \<open>None\<close>.
\<close>

text \<open>The exceptions the platform functions used by the scripts can raise.\<close>

datatype js_error = TypeError | SyntaxError | URIError

text \<open>
  Whether a string holds a surrogate without its partner: the byte \<^verbatim>\<open>ED\<close> followed by
  a byte in \<^verbatim>\<open>A0..BF\<close>.
\<close>

fun lone_surrogate :: "string \<Rightarrow> bool" where
  "lone_surrogate (a # b # cs) =
     ((of_char a = (237::nat) \<and> (160::nat) \<le> of_char b \<and> of_char b \<le> (191::nat))
      \<or> lone_surrogate (b # cs))"
| "lone_surrogate cs = False"

type_synonym params = "(string \<times> string) list"

text \<open>
  A parsed URL, as \<^verbatim>\<open>new URL(window.location.href)\<close> gives it. \<open>searchParams\<close> is the
  list of name-value pairs of \<^verbatim>\<open>URLSearchParams\<close>: ordered, and a name may repeat.
\<close>

record url =
  origin :: string
  pathname :: string
  searchParams :: params
  hash :: string

text \<open>\<^verbatim>\<open>k.startsWith(p)\<close>\<close>

definition startsWith :: "string \<Rightarrow> string \<Rightarrow> bool" where
  "startsWith k p = prefix p k"

text \<open>\<^verbatim>\<open>searchParams.keys()\<close>: every name, in order, repeated names included.\<close>

definition sp_keys :: "params \<Rightarrow> string list" where
  "sp_keys ps = map fst ps"

text \<open>\<^verbatim>\<open>searchParams.delete(name)\<close> removes every pair with that name.\<close>

definition sp_delete :: "string \<Rightarrow> params \<Rightarrow> params" where
  "sp_delete name ps = filter (\<lambda>p. fst p \<noteq> name) ps"

text \<open>
  \<^verbatim>\<open>searchParams.set(name, value)\<close>: the first pair with that name takes the value and
  the later ones are removed; with no such pair, a new one is appended.
\<close>

fun sp_set :: "string \<Rightarrow> string \<Rightarrow> params \<Rightarrow> params" where
  "sp_set name v [] = [(name, v)]"
| "sp_set name v (p # ps) =
     (if fst p = name then (name, v) # sp_delete name ps else p # sp_set name v ps)"

text \<open>\<^verbatim>\<open>a || d\<close> on an attribute value: \<^verbatim>\<open>null\<close> and the empty string are falsy.\<close>

definition js_or :: "string option \<Rightarrow> string \<Rightarrow> string" where
  "js_or a d = (case a of None \<Rightarrow> d | Some s \<Rightarrow> if s = [] then d else s)"

text \<open>An attribute value inside a template literal: \<^verbatim>\<open>null\<close> prints as \<^verbatim>\<open>null\<close>.\<close>

definition template_str :: "string option \<Rightarrow> string" where
  "template_str a = (case a of None \<Rightarrow> ''null'' | Some s \<Rightarrow> s)"

text \<open>
  How a handler ends: it assigns a serialised URL object to
  \<^verbatim>\<open>window.location.href\<close>, assigns a string to it, calls \<^verbatim>\<open>form.submit()\<close>, returns
  without either, or is left by an exception that a platform function raised.
\<close>

datatype action = Navigate url | Navigate_href string | Submit | No_action | Throws js_error

text \<open>
  A header cell matched by \<^verbatim>\<open>th[data-col]\<close>: the selector guarantees the attribute
  \<^verbatim>\<open>data-col\<close>, \<^verbatim>\<open>data-sort\<close> may be missing. \<open>th_id\<close> identifies the element.
\<close>

record th =
  th_id :: nat
  data_col :: string
  data_sort :: "string option"

text \<open>An element of class \<^verbatim>\<open>chip\<close> with its two attributes, either of which may be missing.\<close>

record chip =
  chip_col :: "string option"
  chip_kind :: "string option"

text \<open>
  The successor of a sort state, the expression bound to \<^verbatim>\<open>next\<close> in both controllers:
  \<^verbatim>\<open>current === "" ? "asc" : current === "asc" ? "desc" : ""\<close>.
\<close>

definition next_sort :: "string \<Rightarrow> string" where
  "next_sort current =
     (if current = '''' then ''asc'' else if current = ''asc'' then ''desc'' else '''')"

section \<open>The query-string controller (part\_000)\<close>

text \<open>
  Every handler parses \<^verbatim>\<open>window.location.href\<close> into a URL object \<open>loc\<close>, edits its
  search parameters and assigns the serialised object back. \<open>setParam\<close> is defined by
  the script and called by no handler; an empty value is falsy.
\<close>

definition setParam :: "url \<Rightarrow> string \<Rightarrow> string \<Rightarrow> action" where
  "setParam loc name v =
     (if v = [] then Navigate (loc\<lparr>searchParams := sp_delete name (searchParams loc)\<rparr>)
      else Navigate (loc\<lparr>searchParams := sp_set name v (searchParams loc)\<rparr>))"

text \<open>
  \<open>clearAll\<close> and \<open>clearSorts\<close> walk a copy of the key list
  (\<^verbatim>\<open>Array.from(url.searchParams.keys())\<close>) and delete the keys that match.
\<close>

definition clearAll :: "url \<Rightarrow> action" where
  "clearAll loc =
     Navigate (loc\<lparr>searchParams :=
       fold (\<lambda>k ps. if startsWith k ''f_'' \<or> startsWith k ''s_'' \<or> k = ''limit''
                     then sp_delete k ps else ps)
            (sp_keys (searchParams loc)) (searchParams loc)\<rparr>)"

definition clearSorts :: "url \<Rightarrow> action" where
  "clearSorts loc =
     Navigate (loc\<lparr>searchParams :=
       fold (\<lambda>k ps. if startsWith k ''s_'' then sp_delete k ps else ps)
            (sp_keys (searchParams loc)) (searchParams loc)\<rparr>)"

text \<open>
  The click handler of a header cell. \<open>actionEl\<close> tells whether the click target has an
  ancestor-or-self matching \<^verbatim>\<open>[data-action='sort']\<close>.
\<close>

definition th_click :: "url \<Rightarrow> th \<Rightarrow> bool \<Rightarrow> action" where
  "th_click loc t actionEl =
     (if \<not> actionEl then No_action
      else
        let col = data_col t;
            current = js_or (data_sort t) '''';
            nxt = next_sort current
        in Navigate (loc\<lparr>searchParams := sp_set (''s_'' @ col) nxt (searchParams loc)\<rparr>))"

text \<open>
  The click handler of \<^verbatim>\<open>#chips\<close>. \<open>x\<close> tells whether the click target is inside an
  element of class \<^verbatim>\<open>x\<close>; \<open>c\<close> is the closest element of class \<^verbatim>\<open>chip\<close>, if any.
\<close>

definition chips_click :: "url \<Rightarrow> bool \<Rightarrow> chip option \<Rightarrow> action" where
  "chips_click loc x c =
     (if \<not> x then No_action
      else case c of
        None \<Rightarrow> No_action
      | Some ch \<Rightarrow>
          let kind = chip_kind ch;
              col = chip_col ch;
              ps1 = (if kind = Some ''filter''
                     then sp_delete (''f_'' @ template_str col) (searchParams loc)
                     else searchParams loc);
              ps2 = (if kind = Some ''sort''
                     then sp_delete (''s_'' @ template_str col) ps1
                     else ps1)
          in Navigate (loc\<lparr>searchParams := ps2\<rparr>))"



section \<open>The form controller (part\_001)\<close>

text \<open>
  The form controls of the document, in document order. A control is a hidden
  \<^verbatim>\<open>input\<close>, another \<^verbatim>\<open>input\<close>, or some other element (a \<^verbatim>\<open>select\<close>, say);
  \<open>in_form\<close> tells whether it is a descendant of \<^verbatim>\<open>#qform\<close>, \<open>in_th\<close> lists the header
  cells it is a descendant of (none, one, or several when header cells are nested). An
  element reference is an index into the list.
\<close>

datatype elem_kind = Input_hidden | Input_other | Not_input

record control =
  fname :: string
  fkind :: elem_kind
  fvalue :: string
  in_form :: bool
  in_th :: "nat list"

type_synonym doc = "control list"

text \<open>\<^verbatim>\<open>querySelector\<close>: the first match in document order, or \<^verbatim>\<open>null\<close>.\<close>

fun querySelector :: "(control \<Rightarrow> bool) \<Rightarrow> doc \<Rightarrow> nat option" where
  "querySelector sel [] = None"
| "querySelector sel (f # fs) =
     (if sel f then Some 0 else map_option Suc (querySelector sel fs))"

text \<open>\<^verbatim>\<open>querySelectorAll\<close>: every match, in document order.\<close>

definition querySelectorAll :: "(control \<Rightarrow> bool) \<Rightarrow> doc \<Rightarrow> nat list" where
  "querySelectorAll sel d = filter (\<lambda>i. sel (d ! i)) [0..<length d]"

text \<open>\<^verbatim>\<open>el.value = v\<close>\<close>

definition set_value :: "nat \<Rightarrow> string \<Rightarrow> doc \<Rightarrow> doc" where
  "set_value i v d = d[i := (d ! i)\<lparr>fvalue := v\<rparr>]"

text \<open>
  What the selectors of the script select: an \<^verbatim>\<open>input\<close> of a given name, a hidden
  \<^verbatim>\<open>input\<close> of a given name, a hidden \<^verbatim>\<open>input\<close> whose name starts with a given string.
\<close>

definition input_named :: "string \<Rightarrow> control \<Rightarrow> bool" where
  "input_named n f = (fkind f \<noteq> Not_input \<and> fname f = n)"

definition hidden_named :: "string \<Rightarrow> control \<Rightarrow> bool" where
  "hidden_named n f = (fkind f = Input_hidden \<and> fname f = n)"

definition hidden_name_prefix :: "string \<Rightarrow> control \<Rightarrow> bool" where
  "hidden_name_prefix p f = (fkind f = Input_hidden \<and> startsWith (fname f) p)"

subsection \<open>Selectors built from an attribute value\<close>

text \<open>
  Two handlers build their selector by concatenation around \<^verbatim>\<open>data-col\<close>, and the
  platform parses the result as CSS. Inside a double-quoted CSS string every character
  stands for itself except the quote (which ends the string), the backslash (which
  starts an escape), a line break (which makes the string, and so the selector,
  invalid), and NUL and a surrogate without its partner (which are replaced). A name
  without these is \<open>css_plain\<close>.
\<close>

definition dq :: string where
  "dq = [CHR 0x22]"

definition css_plain :: "string \<Rightarrow> bool" where
  "css_plain n =
     ((\<forall>c \<in> set n. c \<noteq> CHR 0x22 \<and> c \<noteq> CHR 0x5C \<and> c \<noteq> CHR 0x0A \<and> c \<noteq> CHR 0x0C
                   \<and> c \<noteq> CHR 0x0D \<and> c \<noteq> CHR 0x00)
      \<and> \<not> lone_surrogate n)"

text \<open>
  \<open>selector_name p s\<close> is the name \<open>n\<close> when the selector string \<open>s\<close> is \<open>p\<close>, a plain
  name \<open>n\<close>, a quote and a closing bracket.
\<close>

definition selector_name :: "string \<Rightarrow> string \<Rightarrow> string option" where
  "selector_name p s =
     (let n = take (length s - length p - 2) (drop (length p) s)
      in if s = p @ n @ dq @ '']'' \<and> css_plain n then Some n else None)"

text \<open>
  \<^verbatim>\<open>el.querySelector(s)\<close>. \<open>scope\<close> tells which controls are descendants of \<^verbatim>\<open>el\<close>. The
  result is an exception, \<^verbatim>\<open>null\<close> or an element. On \<^verbatim>\<open>input[name="n"]\<close> and
  \<^verbatim>\<open>input[type="hidden"][name="n"]\<close> with a plain name the result is the first control
  in scope of that kind and name. What the platform does with any other string (it may
  raise SyntaxError, read an escape, or select by a longer selector that a crafted name
  completes) is not decided here: it is the parameter \<open>engine\<close>.
\<close>

type_synonym selector_engine = "(control \<Rightarrow> bool) \<Rightarrow> string \<Rightarrow> doc \<Rightarrow> js_error + nat option"

definition css_querySelector ::
  "selector_engine \<Rightarrow> (control \<Rightarrow> bool) \<Rightarrow> string \<Rightarrow> doc \<Rightarrow> js_error + nat option" where
  "css_querySelector engine scope s d =
     (case selector_name (''input[name='' @ dq) s of
        Some n \<Rightarrow> Inr (querySelector (\<lambda>f. scope f \<and> input_named n f) d)
      | None \<Rightarrow>
          (case selector_name (''input[type='' @ dq @ ''hidden'' @ dq @ ''][name='' @ dq) s of
             Some n \<Rightarrow> Inr (querySelector (\<lambda>f. scope f \<and> hidden_named n f) d)
           | None \<Rightarrow> engine scope s d))"

subsection \<open>encodeURIComponent\<close>

text \<open>
  Letters, digits and \<^verbatim>\<open>- _ . ! ~ * ' ( )\<close> are kept; every other byte becomes
  \<^verbatim>\<open>%\<close> and two upper-case hexadecimal digits. On a string that holds a surrogate
  without its partner the function raises URIError.
\<close>

definition unreserved :: "char \<Rightarrow> bool" where
  "unreserved c =
     (c \<in> set (''ABCDEFGHIJKLMNOPQRSTUVWXYZabcdefghijklmnopqrstuvwxyz0123456789-_.!~*()''
               @ [CHR 0x27]))"

definition hexdigit :: "nat \<Rightarrow> char" where
  "hexdigit n = ''0123456789ABCDEF'' ! n"

definition encode_char :: "char \<Rightarrow> string" where
  "encode_char c =
     (if unreserved c then [c]
      else [CHR ''%'', hexdigit (of_char c div 16), hexdigit (of_char c mod 16)])"

definition percent_encode :: "string \<Rightarrow> string" where
  "percent_encode s = concat (map encode_char s)"

definition encodeURIComponent :: "string \<Rightarrow> js_error + string" where
  "encodeURIComponent s =
     (if lone_surrogate s then Inl URIError else Inr (percent_encode s))"

subsection \<open>The handlers\<close>

text \<open>The click handler of \<^verbatim>\<open>#clearBtn\<close>; \<open>path\<close> is \<^verbatim>\<open>window.location.pathname\<close>.\<close>

definition clearBtn_click :: "string \<Rightarrow> doc \<Rightarrow> doc \<times> action" where
  "clearBtn_click path d =
     (let limitInput = querySelector (\<lambda>f. in_form f \<and> input_named ''limit'' f) d;
          limit = (case limitInput of None \<Rightarrow> ''100'' | Some i \<Rightarrow> fvalue (d ! i))
      in case encodeURIComponent limit of
           Inl e \<Rightarrow> (d, Throws e)
         | Inr enc \<Rightarrow> (d, Navigate_href (path @ ''?limit='' @ enc @ ''&format=html'')))"

text \<open>The click handler of \<^verbatim>\<open>#clearSortsBtn\<close>.\<close>

definition clearSortsBtn_click :: "doc \<Rightarrow> doc \<times> action" where
  "clearSortsBtn_click d =
     (fold (\<lambda>h d'. set_value h '''' d')
           (querySelectorAll (\<lambda>f. in_form f \<and> hidden_name_prefix ''s_'' f) d) d,
      Submit)"

text \<open>
  The click handler of a sort control; \<open>t\<close> is the header cell the control lies in
  (\<^verbatim>\<open>e.currentTarget.closest('th[data-col]')\<close>, which the selector the handler was
  registered under guarantees). The selector is
  \<^verbatim>\<open>'input[type="hidden"][name="s_' + col + '"]'\<close>, looked up inside the header cell; an
  exception of \<^verbatim>\<open>th.querySelector\<close> leaves the handler before the write and before
  \<^verbatim>\<open>form.submit()\<close>.
\<close>

definition sort_click :: "selector_engine \<Rightarrow> th \<Rightarrow> doc \<Rightarrow> doc \<times> action" where
  "sort_click engine t d =
     (let col = data_col t;
          current = js_or (data_sort t) '''';
          nxt = next_sort current
      in case css_querySelector engine (\<lambda>f. th_id t \<in> set (in_th f))
                (''input[type='' @ dq @ ''hidden'' @ dq @ ''][name='' @ dq @ ''s_'' @ col @ dq @ '']'')
                d of
           Inl e \<Rightarrow> (d, Throws e)
         | Inr hid \<Rightarrow> ((case hid of None \<Rightarrow> d | Some i \<Rightarrow> set_value i nxt d), Submit))"

text \<open>
  The click handler of a chip's remove control; \<open>ch\<close> is the chip the control lies in.
  \<^verbatim>\<open>if (!col || !kind) return\<close> leaves when either attribute is missing or empty. The
  selectors are \<^verbatim>\<open>'input[name="f_' + col + '"]'\<close> and
  \<^verbatim>\<open>'input[type="hidden"][name="s_' + col + '"]'\<close>, looked up inside the form; an
  exception of \<^verbatim>\<open>form.querySelector\<close> leaves the handler before \<^verbatim>\<open>form.submit()\<close>.
\<close>

definition chip_x_click :: "selector_engine \<Rightarrow> chip \<Rightarrow> doc \<Rightarrow> doc \<times> action" where
  "chip_x_click engine ch d =
     (case (chip_col ch, chip_kind ch) of
        (Some col, Some kind) \<Rightarrow>
          if col = [] \<or> kind = [] then (d, No_action)
          else if kind = ''filter'' then
            (case css_querySelector engine in_form
                    (''input[name='' @ dq @ ''f_'' @ col @ dq @ '']'') d of
               Inl e \<Rightarrow> (d, Throws e)
             | Inr inp \<Rightarrow> ((case inp of None \<Rightarrow> d | Some i \<Rightarrow> set_value i '''' d), Submit))
          else if kind = ''sort'' then
            (case css_querySelector engine in_form
                    (''input[type='' @ dq @ ''hidden'' @ dq @ ''][name='' @ dq @ ''s_'' @ col @ dq @ '']'')
                    d of
               Inl e \<Rightarrow> (d, Throws e)
             | Inr hid \<Rightarrow> ((case hid of None \<Rightarrow> d | Some i \<Rightarrow> set_value i '''' d), Submit))
          else (d, Submit)
      | _ \<Rightarrow> (d, No_action))"



subsection \<open>The query string a navigation target carries\<close>

text \<open>
  The server reads the query of the address it is sent as
  \<^verbatim>\<open>application/x-www-form-urlencoded\<close>: split at \<^verbatim>\<open>&\<close>, empty pieces skipped, each
  piece split at its first \<^verbatim>\<open>=\<close>, \<^verbatim>\<open>+\<close> read as a space, and \<^verbatim>\<open>%XY\<close> read as the
  byte with hexadecimal digits \<^verbatim>\<open>XY\<close>. This is the inverse of what
  \<^verbatim>\<open>URLSearchParams\<close> serialises, so a parsed \<open>url\<close> carries \<open>searchParams\<close> as they are.
\<close>

definition hexval :: "char \<Rightarrow> nat option" where
  "hexval c =
     (let n = (of_char c :: nat) in
      if 48 \<le> n \<and> n \<le> 57 then Some (n - 48)
      else if 65 \<le> n \<and> n \<le> 70 then Some (n - 55)
      else if 97 \<le> n \<and> n \<le> 102 then Some (n - 87)
      else None)"

fun percent_decode :: "string \<Rightarrow> string" where
  "percent_decode [] = []"
| "percent_decode (c # cs) =
     (if c = CHR ''%'' then
        (case cs of
           h # l # rest \<Rightarrow>
             (case (hexval h, hexval l) of
                (Some a, Some b) \<Rightarrow> char_of (16 * a + b) # percent_decode rest
              | _ \<Rightarrow> c # percent_decode cs)
         | _ \<Rightarrow> c # percent_decode cs)
      else c # percent_decode cs)"

fun split_on :: "char \<Rightarrow> string \<Rightarrow> string list" where
  "split_on c [] = [[]]"
| "split_on c (x # xs) =
     (if x = c then [] # split_on c xs
      else (case split_on c xs of [] \<Rightarrow> [[x]] | p # ps \<Rightarrow> (x # p) # ps))"

definition plus_to_space :: "string \<Rightarrow> string" where
  "plus_to_space s = map (\<lambda>c. if c = CHR ''+'' then CHR '' '' else c) s"

definition parse_pair :: "string \<Rightarrow> string \<times> string" where
  "parse_pair s =
     (let name = takeWhile (\<lambda>c. c \<noteq> CHR ''='') s;
          v = drop (Suc (length name)) s
      in (percent_decode (plus_to_space name), percent_decode (plus_to_space v)))"

definition parse_query :: "string \<Rightarrow> params" where
  "parse_query q = map parse_pair (filter (\<lambda>s. s \<noteq> []) (split_on CHR ''&'' q))"

text \<open>
  The query of an address: the fragment, from the first \<^verbatim>\<open>#\<close> on, is cut off, and the
  query is what follows the first \<^verbatim>\<open>?\<close>.
\<close>

definition query_of_href :: "string \<Rightarrow> string" where
  "query_of_href h =
     drop 1 (dropWhile (\<lambda>c. c \<noteq> CHR ''?'') (takeWhile (\<lambda>c. c \<noteq> CHR ''#'') h))"

text \<open>
  The parameters the server receives from a navigation: the pairs of the URL object, or
  the parsed query of the assigned string. A handler that does not navigate sends none
  (\<open>None\<close>, as distinct from a navigation with an empty query).
\<close>

definition target_params :: "action \<Rightarrow> params option" where
  "target_params a =
     (case a of
        Navigate u \<Rightarrow> Some (searchParams u)
      | Navigate_href h \<Rightarrow> Some (parse_query (query_of_href h))
      | _ \<Rightarrow> None)"

section \<open>The chart widget (storage.js)\<close>

text \<open>
  A global of the page is \<^verbatim>\<open>undefined\<close> or an array. \<^verbatim>\<open>a || d\<close> keeps every array,
  the empty one too (an array is truthy); reading \<^verbatim>\<open>.length\<close> of \<^verbatim>\<open>undefined\<close> is a
  TypeError.
\<close>

datatype 'a jsval = Undefined | Array "'a list"

definition js_or_val :: "'a jsval \<Rightarrow> 'a jsval \<Rightarrow> 'a jsval" where
  "js_or_val a d = (case a of Undefined \<Rightarrow> d | Array xs \<Rightarrow> Array xs)"

definition js_length :: "'a jsval \<Rightarrow> js_error + nat" where
  "js_length a = (case a of Undefined \<Rightarrow> Inl TypeError | Array xs \<Rightarrow> Inr (length xs))"

text \<open>
  The configuration object handed to \<^verbatim>\<open>new Chart\<close>. The tooltip callback, which
  formats a floating-point number, is left out of \<open>chart_options\<close>.
\<close>

record 'n dataset =
  label :: string
  data :: "'n jsval"
  borderWidth :: nat
  pointRadius :: nat
  tension :: rat

record ('l, 'n) chart_data =
  labels :: "'l jsval"
  datasets :: "'n dataset list"

record chart_options =
  responsive :: bool
  maintainAspectRatio :: bool
  interaction_mode :: string
  interaction_intersect :: bool
  legend_display :: bool
  x_title :: string
  x_maxRotation :: nat
  y_title :: string
  y_beginAtZero :: bool
  y_suggestedMax :: nat

record ('l, 'n) chart_config =
  chart_type :: string
  chart_data :: "('l, 'n) chart_data"
  options :: chart_options

text \<open>The script either returns without a chart or calls \<^verbatim>\<open>new Chart(canvas, config)\<close>.\<close>

datatype ('c, 'l, 'n) outcome = No_chart | New_Chart 'c "('l, 'n) chart_config"

text \<open>
  \<open>canvas\<close> is \<^verbatim>\<open>document.getElementById("usageChart")\<close>; the three globals are
  \<^verbatim>\<open>window.STORAGE_LABELS\<close>, \<^verbatim>\<open>window.STORAGE_ROOT_PCT\<close> and \<^verbatim>\<open>window.STORAGE_VOL_PCT\<close>.
\<close>

definition storage ::
  "'c option \<Rightarrow> 'l jsval \<Rightarrow> 'n jsval \<Rightarrow> 'n jsval \<Rightarrow> js_error + ('c, 'l, 'n) outcome" where
  "storage canvas STORAGE_LABELS STORAGE_ROOT_PCT STORAGE_VOL_PCT =
     (let lbls = js_or_val STORAGE_LABELS (Array []);
          rootPct = js_or_val STORAGE_ROOT_PCT (Array []);
          volPct = js_or_val STORAGE_VOL_PCT (Array [])
      in case canvas of
           None \<Rightarrow> Inr No_chart
         | Some cv \<Rightarrow>
             (case js_length lbls of
                Inl e \<Rightarrow> Inl e
              | Inr n \<Rightarrow>
                  if n = 0 then Inr No_chart
                  else Inr (New_Chart cv
                    \<lparr>chart_type = ''line'',
                     chart_data =
                       \<lparr>labels = lbls,
                        datasets =
                          [\<lparr>label = ''Root % Used'', data = rootPct,
                            borderWidth = 2, pointRadius = 3, tension = 1 / 4\<rparr>,
                           \<lparr>label = ''Volume % Used'', data = volPct,
                            borderWidth = 2, pointRadius = 3, tension = 1 / 4\<rparr>]\<rparr>,
                     options =
                       \<lparr>responsive = True, maintainAspectRatio = False,
                        interaction_mode = ''nearest'', interaction_intersect = False,
                        legend_display = True,
                        x_title = ''Date'', x_maxRotation = 0,
                        y_title = ''Percent Used (%)'', y_beginAtZero = True,
                        y_suggestedMax = 100\<rparr>\<rparr>)))"

section \<open>Properties\<close>

subsection \<open>Search parameters\<close>

lemma fold_sp_delete:
  "fold (\<lambda>k ps. if P k then sp_delete k ps else ps) ks ps
     = filter (\<lambda>p. \<not> (P (fst p) \<and> fst p \<in> set ks)) ps"
proof (induction ks arbitrary: ps)
  case Nil
  show ?case by simp
next
  case (Cons k ks)
  show ?case
    by (auto simp: Cons.IH sp_delete_def intro: filter_cong)
qed

lemma fold_sp_delete_keys:
  "fold (\<lambda>k ps. if P k then sp_delete k ps else ps) (sp_keys ps) ps
     = filter (\<lambda>p. \<not> P (fst p)) ps"
  unfolding fold_sp_delete sp_keys_def
  by (rule filter_cong) auto

lemma filter_sp_set_same:
  "filter (\<lambda>p. fst p = k) (sp_set k v ps) = [(k, v)]"
  by (induction ps) (auto simp: sp_delete_def)

lemma filter_sp_set_other:
  "filter (\<lambda>p. fst p \<noteq> k) (sp_set k v ps) = filter (\<lambda>p. fst p \<noteq> k) ps"
  by (induction ps) (auto simp: sp_delete_def)

subsection \<open>Element lookup and assignment\<close>

lemma nth_set_value:
  "j < length d \<Longrightarrow>
   set_value h v d ! j = (if j = h then (d ! j)\<lparr>fvalue := v\<rparr> else d ! j)"
  by (simp add: set_value_def)

lemma length_set_value: "length (set_value h v d) = length d"
  by (simp add: set_value_def)

lemma querySelector_None: "querySelector sel d = None \<longleftrightarrow> (\<forall>i<length d. \<not> sel (d ! i))"
proof (induction d)
  case Nil
  show ?case by simp
next
  case (Cons f fs)
  show ?case
    by (auto simp: Cons.IH nth_Cons split: nat.splits)
qed

lemma querySelector_Some:
  "querySelector sel d = Some i \<longleftrightarrow>
     i < length d \<and> sel (d ! i) \<and> (\<forall>j<i. \<not> sel (d ! j))"
proof (induction d arbitrary: i)
  case Nil
  show ?case by simp
next
  case (Cons f fs)
  show ?case
  proof (cases "sel f")
    case True
    then show ?thesis by (cases i) auto
  next
    case False
    show ?thesis
    proof (cases i)
      case 0
      with False show ?thesis by simp
    next
      case (Suc k)
      have "(\<forall>j<Suc k. \<not> sel ((f # fs) ! j)) \<longleftrightarrow> (\<forall>j<k. \<not> sel (fs ! j))"
        using False by (auto simp: nth_Cons split: nat.splits)
      with False Suc show ?thesis
        by (auto simp: Cons.IH)
    qed
  qed
qed

text \<open>The idiom \<^verbatim>\<open>el = querySelector(sel); if (el) el.value = v\<close>.\<close>

lemma length_write_first:
  "length (case querySelector sel d of None \<Rightarrow> d | Some i \<Rightarrow> set_value i v d) = length d"
  by (simp add: length_set_value split: option.splits)

lemma nth_write_first:
  assumes "n < length d"
  shows "(case querySelector sel d of None \<Rightarrow> d | Some i \<Rightarrow> set_value i v d) ! n
           = (if sel (d ! n) \<and> (\<forall>j<n. \<not> sel (d ! j)) then (d ! n)\<lparr>fvalue := v\<rparr> else d ! n)"
proof (cases "querySelector sel d")
  case None
  then have "\<not> sel (d ! n)"
    using assms by (simp add: querySelector_None)
  with None show ?thesis by simp
next
  case (Some i)
  then have i: "i < length d" "sel (d ! i)" "\<forall>j<i. \<not> sel (d ! j)"
    by (simp_all add: querySelector_Some)
  show ?thesis
  proof (cases "n = i")
    case True
    with Some i assms show ?thesis by (simp add: nth_set_value)
  next
    case False
    then have "n < i \<or> i < n" by arith
    then have "\<not> (sel (d ! n) \<and> (\<forall>j<n. \<not> sel (d ! j)))"
      using i by auto
    then have rhs: "(if sel (d ! n) \<and> (\<forall>j<n. \<not> sel (d ! j)) then (d ! n)\<lparr>fvalue := v\<rparr> else d ! n)
                      = d ! n"
      by (simp only: if_False)
    have "(case querySelector sel d of None \<Rightarrow> d | Some i \<Rightarrow> set_value i v d) ! n = d ! n"
      using Some False assms by (simp add: nth_set_value)
    with rhs show ?thesis by simp
  qed
qed

lemma write_first_spec:
  "\<exists>d'. (case querySelector sel d of None \<Rightarrow> d | Some i \<Rightarrow> set_value i v d) = d'
      \<and> length d' = length d
      \<and> (\<forall>i<length d. d' ! i =
           (if sel (d ! i) \<and> (\<forall>j<i. \<not> sel (d ! j)) then (d ! i)\<lparr>fvalue := v\<rparr> else d ! i))"
  by (simp add: length_write_first nth_write_first)

lemma length_fold_set_value:
  "length (fold (\<lambda>h d'. set_value h v d') hs d) = length d"
  by (induction hs arbitrary: d) (simp_all add: length_set_value)

lemma nth_fold_set_value:
  "j < length d \<Longrightarrow>
   fold (\<lambda>h d'. set_value h v d') hs d ! j
     = (if j \<in> set hs then (d ! j)\<lparr>fvalue := v\<rparr> else d ! j)"
proof (induction hs arbitrary: d)
  case Nil
  show ?case by simp
next
  case (Cons h hs)
  have len: "j < length (set_value h v d)"
    using Cons.prems by (simp add: length_set_value)
  show ?case
    using Cons.prems
    by (simp add: Cons.IH [OF len] nth_set_value)
qed

lemma forEach_set_value:
  "fold (\<lambda>h d'. set_value h v d') (querySelectorAll sel d) d
     = map (\<lambda>f. if sel f then f\<lparr>fvalue := v\<rparr> else f) d"
  by (rule nth_equalityI)
     (simp_all add: length_fold_set_value nth_fold_set_value querySelectorAll_def)

subsection \<open>Selectors with a plain name\<close>

lemma selector_name_built:
  "selector_name p (p @ n @ dq @ '']'') = (if css_plain n then Some n else None)"
  by (simp add: selector_name_def dq_def)

lemma lone_surrogate_after_underscore:
  "lone_surrogate (CHR ''_'' # c) = lone_surrogate c"
  by (cases c) simp_all

lemma css_plain_s: "css_plain (''s_'' @ c) \<longleftrightarrow> css_plain c"
  by (simp add: css_plain_def lone_surrogate_after_underscore)

lemma css_plain_f: "css_plain (''f_'' @ c) \<longleftrightarrow> css_plain c"
  by (simp add: css_plain_def lone_surrogate_after_underscore)

lemma css_querySelector_input:
  "css_plain n \<Longrightarrow>
   css_querySelector engine scope (''input[name='' @ dq @ n @ dq @ '']'') d
     = Inr (querySelector (\<lambda>f. scope f \<and> input_named n f) d)"
  using selector_name_built [of "''input[name='' @ dq" n]
  by (simp add: css_querySelector_def)

lemma css_querySelector_hidden:
  assumes "css_plain n"
  shows "css_querySelector engine scope
           (''input[type='' @ dq @ ''hidden'' @ dq @ ''][name='' @ dq @ n @ dq @ '']'') d
         = Inr (querySelector (\<lambda>f. scope f \<and> hidden_named n f) d)"
proof -
  have no: "selector_name (''input[name='' @ dq)
              (''input[type='' @ dq @ ''hidden'' @ dq @ ''][name='' @ dq @ n @ dq @ '']'') = None"
    by (simp add: selector_name_def dq_def)
  have yes: "selector_name (''input[type='' @ dq @ ''hidden'' @ dq @ ''][name='' @ dq)
              (''input[type='' @ dq @ ''hidden'' @ dq @ ''][name='' @ dq @ n @ dq @ '']'') = Some n"
    using selector_name_built [of "''input[type='' @ dq @ ''hidden'' @ dq @ ''][name='' @ dq" n] assms
    by simp
  show ?thesis
    by (simp only: css_querySelector_def no yes option.case)
qed

subsection \<open>Sort clicks\<close>

text \<open>
  Claim C1, as amended. A sort click reads the current sort state (\<^verbatim>\<open>data-sort\<close>, the
  empty string when the attribute is missing) and computes its successor: \<^verbatim>\<open>asc\<close> after
  the empty string, \<^verbatim>\<open>desc\<close> after \<^verbatim>\<open>asc\<close>, the empty string after anything else.
  The query-string controller sets the parameter \<^verbatim>\<open>s_<col>\<close> to the successor: it
  becomes the only pair of that name and every other pair stays as it was. The form
  controller, for a plain column name (no quote, backslash, line break, NUL or unpaired
  surrogate), writes the successor into the first hidden input named \<^verbatim>\<open>s_<col>\<close>
  inside the clicked header cell, when there is one, leaves every other control as it
  was, and submits the form; with no such input in the cell nothing is written. When
  \<^verbatim>\<open>th.querySelector\<close> raises (as on a selector that a quote in the column name has
  broken), the handler ends with that exception: nothing is written and the form is not
  submitted.
\<close>

theorem sort_click_writes_successor:
  assumes cur: "cur = (case data_sort t of None \<Rightarrow> '''' | Some s \<Rightarrow> s)"
    and nxt: "nxt = (if cur = '''' then ''asc'' else if cur = ''asc'' then ''desc'' else '''')"
    and k: "k = ''s_'' @ data_col t"
  shows
    "(\<exists>ps'. th_click loc t True = Navigate (loc\<lparr>searchParams := ps'\<rparr>)
        \<and> filter (\<lambda>p. fst p = k) ps' = [(k, nxt)]
        \<and> filter (\<lambda>p. fst p \<noteq> k) ps' = filter (\<lambda>p. fst p \<noteq> k) (searchParams loc))
     \<and> (css_plain (data_col t) \<longrightarrow>
        (\<exists>d'. sort_click engine t d = (d', Submit) \<and> length d' = length d
          \<and> (\<forall>i<length d. d' ! i =
             (if th_id t \<in> set (in_th (d ! i)) \<and> fkind (d ! i) = Input_hidden \<and> fname (d ! i) = k
                 \<and> (\<forall>j<i. \<not> (th_id t \<in> set (in_th (d ! j)) \<and> fkind (d ! j) = Input_hidden
                              \<and> fname (d ! j) = k))
              then (d ! i)\<lparr>fvalue := nxt\<rparr> else d ! i))))
     \<and> (\<forall>e. css_querySelector engine (\<lambda>f. th_id t \<in> set (in_th f))
               (''input[type='' @ dq @ ''hidden'' @ dq @ ''][name='' @ dq @ k @ dq @ '']'') d = Inl e
           \<longrightarrow> sort_click engine t d = (d, Throws e))"
proof -
  have n: "next_sort (js_or (data_sort t) '''') = nxt"
    by (auto simp: next_sort_def js_or_def cur nxt split: option.splits)
  have url: "\<exists>ps'. th_click loc t True = Navigate (loc\<lparr>searchParams := ps'\<rparr>)
        \<and> filter (\<lambda>p. fst p = k) ps' = [(k, nxt)]
        \<and> filter (\<lambda>p. fst p \<noteq> k) ps' = filter (\<lambda>p. fst p \<noteq> k) (searchParams loc)"
    by (rule exI [of _ "sp_set k nxt (searchParams loc)"])
       (simp add: th_click_def Let_def n k filter_sp_set_same filter_sp_set_other)
  define scope where "scope = (\<lambda>f :: control. th_id t \<in> set (in_th f))"
  define s where
    "s = ''input[type='' @ dq @ ''hidden'' @ dq @ ''][name='' @ dq @ k @ dq @ '']''"
  have unfolded: "sort_click engine t d =
      (case css_querySelector engine scope s d of
         Inl e \<Rightarrow> (d, Throws e)
       | Inr hid \<Rightarrow> ((case hid of None \<Rightarrow> d | Some i \<Rightarrow> set_value i nxt d), Submit))"
    unfolding sort_click_def Let_def n scope_def s_def k by simp
  have form: "\<exists>d'. sort_click engine t d = (d', Submit) \<and> length d' = length d
          \<and> (\<forall>i<length d. d' ! i =
             (if th_id t \<in> set (in_th (d ! i)) \<and> fkind (d ! i) = Input_hidden \<and> fname (d ! i) = k
                 \<and> (\<forall>j<i. \<not> (th_id t \<in> set (in_th (d ! j)) \<and> fkind (d ! j) = Input_hidden
                              \<and> fname (d ! j) = k))
              then (d ! i)\<lparr>fvalue := nxt\<rparr> else d ! i))"
    if plain: "css_plain (data_col t)"
  proof -
    have "css_plain k"
      using plain by (simp only: k css_plain_s)
    then have q: "css_querySelector engine scope s d
        = Inr (querySelector (\<lambda>f. scope f \<and> hidden_named k f) d)"
      unfolding s_def by (rule css_querySelector_hidden)
    define sel where
      "sel = (\<lambda>f :: control. th_id t \<in> set (in_th f) \<and> fkind f = Input_hidden \<and> fname f = k)"
    define d' where
      "d' = (case querySelector sel d of None \<Rightarrow> d | Some i \<Rightarrow> set_value i nxt d)"
    have "sort_click engine t d =
        ((case querySelector (\<lambda>f. scope f \<and> hidden_named k f) d of
            None \<Rightarrow> d | Some i \<Rightarrow> set_value i nxt d), Submit)"
      by (simp only: unfolded q sum.case)
    then have run: "sort_click engine t d = (d', Submit)"
      unfolding d'_def sel_def scope_def hidden_named_def .
    have len: "length d' = length d"
      unfolding d'_def by (rule length_write_first)
    have nth: "\<forall>i<length d. d' ! i =
        (if sel (d ! i) \<and> (\<forall>j<i. \<not> sel (d ! j)) then (d ! i)\<lparr>fvalue := nxt\<rparr> else d ! i)"
      unfolding d'_def by (simp add: nth_write_first)
    have nth': "\<forall>i<length d. d' ! i =
             (if th_id t \<in> set (in_th (d ! i)) \<and> fkind (d ! i) = Input_hidden \<and> fname (d ! i) = k
                 \<and> (\<forall>j<i. \<not> (th_id t \<in> set (in_th (d ! j)) \<and> fkind (d ! j) = Input_hidden
                              \<and> fname (d ! j) = k))
              then (d ! i)\<lparr>fvalue := nxt\<rparr> else d ! i)"
      using nth unfolding sel_def conj_assoc .
    show ?thesis
      by (rule exI [of _ d']) (intro conjI run len nth')
  qed
  have err: "\<forall>e. css_querySelector engine (\<lambda>f. th_id t \<in> set (in_th f))
               (''input[type='' @ dq @ ''hidden'' @ dq @ ''][name='' @ dq @ k @ dq @ '']'') d = Inl e
           \<longrightarrow> sort_click engine t d = (d, Throws e)"
    unfolding unfolded scope_def s_def by simp
  from url form err show ?thesis by blast
qed

theorem sort_click_writes_successor_witness:
  "(\<exists>ps'. th_click \<lparr>origin = ''http://h'', pathname = ''/t'',
                      searchParams = [(''s_a'', ''asc''), (''f_a'', ''1''), (''s_a'', ''x'')],
                      hash = ''''\<rparr>
                     \<lparr>th_id = 0, data_col = ''a'', data_sort = Some ''asc''\<rparr> True
             = Navigate (\<lparr>origin = ''http://h'', pathname = ''/t'',
                      searchParams = [(''s_a'', ''asc''), (''f_a'', ''1''), (''s_a'', ''x'')],
                      hash = ''''\<rparr>\<lparr>searchParams := ps'\<rparr>)
        \<and> filter (\<lambda>p. fst p = ''s_a'') ps' = [(''s_a'', ''desc'')]
        \<and> filter (\<lambda>p. fst p \<noteq> ''s_a'') ps' = [(''f_a'', ''1'')])
   \<and> (\<exists>d'. sort_click (\<lambda>scope s d. Inl SyntaxError)
               \<lparr>th_id = 0, data_col = ''a'', data_sort = Some ''asc''\<rparr>
               [\<lparr>fname = ''s_a'', fkind = Input_hidden, fvalue = ''asc'', in_form = True, in_th = [0, 7]\<rparr>,
                \<lparr>fname = ''f_a'', fkind = Input_other, fvalue = ''1'', in_form = True, in_th = [0]\<rparr>]
             = (d', Submit)
        \<and> d' = [\<lparr>fname = ''s_a'', fkind = Input_hidden, fvalue = ''desc'', in_form = True, in_th = [0, 7]\<rparr>,
                \<lparr>fname = ''f_a'', fkind = Input_other, fvalue = ''1'', in_form = True, in_th = [0]\<rparr>])
   \<and> sort_click (\<lambda>scope s d. Inl SyntaxError)
        \<lparr>th_id = 0, data_col = ''a'' @ [CHR 0x22] @ ''b'', data_sort = None\<rparr>
        [\<lparr>fname = ''s_a'', fkind = Input_hidden, fvalue = '''', in_form = True, in_th = [0]\<rparr>]
      = ([\<lparr>fname = ''s_a'', fkind = Input_hidden, fvalue = '''', in_form = True, in_th = [0]\<rparr>],
         Throws SyntaxError)"
proof -
  let ?L = "\<lparr>origin = ''http://h'', pathname = ''/t'',
             searchParams = [(''s_a'', ''asc''), (''f_a'', ''1''), (''s_a'', ''x'')], hash = ''''\<rparr>"
  let ?E = "\<lambda>(scope :: control \<Rightarrow> bool) (s :: string) (d :: doc). (Inl SyntaxError :: js_error + nat option)"
  let ?T = "\<lparr>th_id = 0, data_col = ''a'', data_sort = Some ''asc''\<rparr>"
  let ?D = "[\<lparr>fname = ''s_a'', fkind = Input_hidden, fvalue = ''asc'', in_form = True, in_th = [0, 7]\<rparr>,
             \<lparr>fname = ''f_a'', fkind = Input_other, fvalue = ''1'', in_form = True, in_th = [0]\<rparr>]"
  have h1: "''asc'' = (case data_sort ?T of None \<Rightarrow> '''' | Some s \<Rightarrow> s)" by simp
  have h2: "''desc'' = (if ''asc'' = '''' then ''asc'' else if ''asc'' = ''asc'' then ''desc'' else '''')"
    by simp
  have h3: "''s_a'' = ''s_'' @ data_col ?T" by simp
  note w = sort_click_writes_successor [OF h1 h2 h3, of ?L ?E ?D]
  from w obtain ps' where ps':
    "th_click ?L ?T True = Navigate (?L\<lparr>searchParams := ps'\<rparr>)"
    "filter (\<lambda>p. fst p = ''s_a'') ps' = [(''s_a'', ''desc'')]"
    "filter (\<lambda>p. fst p \<noteq> ''s_a'') ps' = filter (\<lambda>p. fst p \<noteq> ''s_a'') (searchParams ?L)"
    by blast
  have plain: "css_plain (data_col ?T)" by (simp add: css_plain_def)
  from w plain obtain d' where d':
    "sort_click ?E ?T ?D = (d', Submit)" "length d' = length ?D"
    "\<forall>i<length ?D. d' ! i =
       (if th_id ?T \<in> set (in_th (?D ! i)) \<and> fkind (?D ! i) = Input_hidden \<and> fname (?D ! i) = ''s_a''
           \<and> (\<forall>j<i. \<not> (th_id ?T \<in> set (in_th (?D ! j)) \<and> fkind (?D ! j) = Input_hidden
                        \<and> fname (?D ! j) = ''s_a''))
        then (?D ! i)\<lparr>fvalue := ''desc''\<rparr> else ?D ! i)"
    by blast
  have "d' ! 0 = (?D ! 0)\<lparr>fvalue := ''desc''\<rparr>" using d'(3) by simp
  moreover have "d' ! 1 = ?D ! 1" using d'(3) by simp
  ultimately have e: "d' = [(?D ! 0)\<lparr>fvalue := ''desc''\<rparr>, ?D ! 1]"
    using d'(2) by (auto simp: list_eq_iff_nth_eq less_Suc_eq)
  let ?T2 = "\<lparr>th_id = 0, data_col = ''a'' @ [CHR 0x22] @ ''b'', data_sort = None\<rparr>"
  let ?D2 = "[\<lparr>fname = ''s_a'', fkind = Input_hidden, fvalue = '''', in_form = True, in_th = [0]\<rparr>]"
  have g1: "'''' = (case data_sort ?T2 of None \<Rightarrow> '''' | Some s \<Rightarrow> s)" by simp
  have g2: "''asc'' = (if '''' = '''' then ''asc'' else if '''' = ''asc'' then ''desc'' else '''')"
    by simp
  have g3: "''s_a'' @ [CHR 0x22] @ ''b'' = ''s_'' @ data_col ?T2" by simp
  have raised: "css_querySelector ?E (\<lambda>f. th_id ?T2 \<in> set (in_th f))
               (''input[type='' @ dq @ ''hidden'' @ dq @ ''][name='' @ dq
                  @ (''s_a'' @ [CHR 0x22] @ ''b'') @ dq @ '']'') ?D2 = Inl SyntaxError"
    by (simp add: css_querySelector_def selector_name_def dq_def css_plain_def)
  have t: "sort_click ?E ?T2 ?D2 = (?D2, Throws SyntaxError)"
    using sort_click_writes_successor [OF g1 g2 g3, of ?L ?E ?D2] raised by blast
  from ps' d'(1) e t show ?thesis by simp
qed

text \<open>
  The claim as first stated, that every sort click writes the successor under
  \<^verbatim>\<open>s_<col>\<close>, fails in the form controller: here the hidden input \<^verbatim>\<open>s_a\<close> is in the
  form but not inside the header cell, the successor of the current state is \<^verbatim>\<open>asc\<close>,
  and the form is submitted with \<^verbatim>\<open>s_a\<close> still empty.
\<close>

theorem sort_click_writes_successor_counterexample:
  "sort_click (\<lambda>scope s d. Inl SyntaxError) \<lparr>th_id = 0, data_col = ''a'', data_sort = None\<rparr>
     [\<lparr>fname = ''s_a'', fkind = Input_hidden, fvalue = '''', in_form = True, in_th = []\<rparr>]
   = ([\<lparr>fname = ''s_a'', fkind = Input_hidden, fvalue = '''', in_form = True, in_th = []\<rparr>],
      Submit)
   \<and> next_sort (js_or None '''') = ''asc''"
proof -
  let ?D = "[\<lparr>fname = ''s_a'', fkind = Input_hidden, fvalue = '''', in_form = True, in_th = []\<rparr>]"
  have "css_plain ''s_a''" by (simp add: css_plain_def)
  then have "css_querySelector (\<lambda>scope s d. Inl SyntaxError) (\<lambda>f. (0::nat) \<in> set (in_th f))
        (''input[type='' @ dq @ ''hidden'' @ dq @ ''][name='' @ dq @ ''s_a'' @ dq @ '']'') ?D
      = Inr (querySelector (\<lambda>f. (0::nat) \<in> set (in_th f) \<and> hidden_named ''s_a'' f) ?D)"
    by (rule css_querySelector_hidden)
  then show ?thesis
    by (simp add: sort_click_def next_sort_def js_or_def)
qed

subsection \<open>Clearing the sorts\<close>

text \<open>
  Claim C3. The clear-sorts button removes exactly the sort state. In the query-string
  controller every pair whose name starts with \<^verbatim>\<open>s_\<close> is deleted and every other pair
  (filters and \<^verbatim>\<open>limit\<close> among them) is kept, in order. In the form controller every
  hidden input of the form whose name starts with \<^verbatim>\<open>s_\<close> gets the empty string as
  its value and every other control is left as it was; then the form is submitted.
\<close>

theorem clearSorts_removes_exactly_sorts:
  "clearSorts loc =
     Navigate (loc\<lparr>searchParams :=
       filter (\<lambda>p. \<not> startsWith (fst p) ''s_'') (searchParams loc)\<rparr>)
   \<and> clearSortsBtn_click d =
     (map (\<lambda>f. if in_form f \<and> fkind f = Input_hidden \<and> startsWith (fname f) ''s_''
                then f\<lparr>fvalue := ''''\<rparr> else f) d,
      Submit)"
  by (simp add: clearSorts_def clearSortsBtn_click_def fold_sp_delete_keys
      forEach_set_value hidden_name_prefix_def)

theorem clearSorts_removes_exactly_sorts_witness:
  "clearSorts \<lparr>origin = ''http://h'', pathname = ''/t'',
      searchParams = [(''s_a'', ''asc''), (''f_a'', ''1''), (''limit'', ''50''), (''s_b'', ''desc''), (''s_a'', ''x'')],
      hash = ''''\<rparr>
     = Navigate \<lparr>origin = ''http://h'', pathname = ''/t'',
      searchParams = [(''f_a'', ''1''), (''limit'', ''50'')], hash = ''''\<rparr>
   \<and> clearSortsBtn_click
       [\<lparr>fname = ''s_a'', fkind = Input_hidden, fvalue = ''asc'', in_form = True, in_th = [0]\<rparr>,
        \<lparr>fname = ''f_a'', fkind = Input_other, fvalue = ''1'', in_form = True, in_th = []\<rparr>,
        \<lparr>fname = ''s_b'', fkind = Input_other, fvalue = ''desc'', in_form = True, in_th = []\<rparr>]
     = ([\<lparr>fname = ''s_a'', fkind = Input_hidden, fvalue = '''', in_form = True, in_th = [0]\<rparr>,
        \<lparr>fname = ''f_a'', fkind = Input_other, fvalue = ''1'', in_form = True, in_th = []\<rparr>,
        \<lparr>fname = ''s_b'', fkind = Input_other, fvalue = ''desc'', in_form = True, in_th = []\<rparr>],
        Submit)"
  using clearSorts_removes_exactly_sorts
    [of "\<lparr>origin = ''http://h'', pathname = ''/t'',
      searchParams = [(''s_a'', ''asc''), (''f_a'', ''1''), (''limit'', ''50''), (''s_b'', ''desc''), (''s_a'', ''x'')],
      hash = ''''\<rparr>"
       "[\<lparr>fname = ''s_a'', fkind = Input_hidden, fvalue = ''asc'', in_form = True, in_th = [0]\<rparr>,
        \<lparr>fname = ''f_a'', fkind = Input_other, fvalue = ''1'', in_form = True, in_th = []\<rparr>,
        \<lparr>fname = ''s_b'', fkind = Input_other, fvalue = ''desc'', in_form = True, in_th = []\<rparr>]"]
  by (simp add: startsWith_def)

subsection \<open>The cycle of sort states\<close>

lemma next_sort_in_cycle: "next_sort s \<in> {'''', ''asc'', ''desc''}"
  by (simp add: next_sort_def)

lemma next_sort_iter_in_cycle: "0 < n \<Longrightarrow> (next_sort ^^ n) s \<in> {'''', ''asc'', ''desc''}"
  by (cases n) (simp_all add: next_sort_def)

text \<open>
  Claim C7, as amended. The sort state of a column does move through a cycle of three
  states, as the comment in the form controller says (none, asc, desc, none): from any
  of the empty string, \<^verbatim>\<open>asc\<close> and \<^verbatim>\<open>desc\<close>, three clicks pass through the two other
  states and restore the first. Any other value is sent to the empty string by one
  click and never comes back.
\<close>

theorem sort_state_three_cycle:
  "next_sort s \<in> {'''', ''asc'', ''desc''}
   \<and> (s \<in> {'''', ''asc'', ''desc''} \<longrightarrow>
        (next_sort ^^ 3) s = s \<and> next_sort s \<noteq> s \<and> (next_sort ^^ 2) s \<noteq> s
        \<and> next_sort s \<noteq> (next_sort ^^ 2) s)
   \<and> (s \<notin> {'''', ''asc'', ''desc''} \<longrightarrow> next_sort s = '''' \<and> (\<forall>n>0. (next_sort ^^ n) s \<noteq> s))
   \<and> next_sort '''' = ''asc'' \<and> next_sort ''asc'' = ''desc'' \<and> next_sort ''desc'' = ''''"
proof (intro conjI impI)
  show "next_sort s \<in> {'''', ''asc'', ''desc''}" by (rule next_sort_in_cycle)
next
  assume "s \<in> {'''', ''asc'', ''desc''}"
  then show "(next_sort ^^ 3) s = s" by (auto simp: next_sort_def eval_nat_numeral)
next
  assume "s \<in> {'''', ''asc'', ''desc''}"
  then show "next_sort s \<noteq> s" by (auto simp: next_sort_def)
next
  assume "s \<in> {'''', ''asc'', ''desc''}"
  then show "(next_sort ^^ 2) s \<noteq> s" by (auto simp: next_sort_def eval_nat_numeral)
next
  assume "s \<in> {'''', ''asc'', ''desc''}"
  then show "next_sort s \<noteq> (next_sort ^^ 2) s" by (auto simp: next_sort_def eval_nat_numeral)
next
  assume "s \<notin> {'''', ''asc'', ''desc''}"
  then show "next_sort s = ''''" by (simp add: next_sort_def)
next
  assume out: "s \<notin> {'''', ''asc'', ''desc''}"
  show "\<forall>n>0. (next_sort ^^ n) s \<noteq> s"
  proof (intro allI impI)
    fix n :: nat
    assume "0 < n"
    then have "(next_sort ^^ n) s \<in> {'''', ''asc'', ''desc''}"
      by (rule next_sort_iter_in_cycle)
    with out show "(next_sort ^^ n) s \<noteq> s" by metis
  qed
next
  show "next_sort '''' = ''asc''" by (simp add: next_sort_def)
next
  show "next_sort ''asc'' = ''desc''" by (simp add: next_sort_def)
next
  show "next_sort ''desc'' = ''''" by (simp add: next_sort_def)
qed

theorem sort_state_three_cycle_witness:
  "(next_sort ^^ 3) ''asc'' = ''asc'' \<and> next_sort ''asc'' \<noteq> ''asc''
   \<and> (next_sort ^^ 2) ''asc'' \<noteq> ''asc'' \<and> next_sort ''asc'' \<noteq> (next_sort ^^ 2) ''asc''
   \<and> next_sort ''up'' = '''' \<and> (next_sort ^^ 5) ''up'' \<noteq> ''up''"
  using sort_state_three_cycle [of "''asc''"] sort_state_three_cycle [of "''up''"]
  by simp

text \<open>
  The claim as first stated, that no run of sort clicks passes through more than one
  state before restoring the first, fails from the empty string: \<^verbatim>\<open>asc\<close> and \<^verbatim>\<open>desc\<close>
  are both passed.
\<close>

theorem sort_state_three_cycle_counterexample:
  "next_sort '''' = ''asc'' \<and> next_sort ''asc'' = ''desc'' \<and> next_sort ''desc'' = ''''
   \<and> (next_sort ^^ 3) '''' = '''' \<and> ''asc'' \<noteq> ''desc'' \<and> ''asc'' \<noteq> '''' \<and> ''desc'' \<noteq> ''''"
  by (simp add: next_sort_def eval_nat_numeral)

subsection \<open>The chart\<close>

text \<open>
  Claim C5. When the canvas is there and the label array is not empty, the widget calls
  \<^verbatim>\<open>new Chart\<close> on that canvas with a chart of type \<^verbatim>\<open>line\<close> and exactly two datasets,
  labelled \<^verbatim>\<open>Root % Used\<close> and \<^verbatim>\<open>Volume % Used\<close>, whose data are the two percentage
  series and whose labels are the label array.
\<close>

theorem chart_is_line_with_two_datasets:
  assumes "canvas = Some cv" and "STORAGE_LABELS = Array ls" and "ls \<noteq> []"
  shows "\<exists>cfg. storage canvas STORAGE_LABELS STORAGE_ROOT_PCT STORAGE_VOL_PCT
                 = Inr (New_Chart cv cfg)
           \<and> chart_type cfg = ''line''
           \<and> length (datasets (chart_data cfg)) = 2
           \<and> map label (datasets (chart_data cfg)) = [''Root % Used'', ''Volume % Used'']
           \<and> map data (datasets (chart_data cfg)) =
               [js_or_val STORAGE_ROOT_PCT (Array []), js_or_val STORAGE_VOL_PCT (Array [])]
           \<and> labels (chart_data cfg) = Array ls"
  using assms by (simp add: storage_def js_or_val_def js_length_def Let_def)

theorem chart_is_line_with_two_datasets_witness:
  "\<exists>cfg. storage (Some (7::nat)) (Array [''mon'', ''tue'']) (Array [10, 20 :: int]) Undefined
            = Inr (New_Chart 7 cfg)
         \<and> chart_type cfg = ''line''
         \<and> length (datasets (chart_data cfg)) = 2
         \<and> map label (datasets (chart_data cfg)) = [''Root % Used'', ''Volume % Used'']
         \<and> map data (datasets (chart_data cfg)) = [Array [10, 20], Array []]
         \<and> labels (chart_data cfg) = Array [''mon'', ''tue'']"
  using chart_is_line_with_two_datasets
    [of "Some (7::nat)" 7 "Array [''mon'', ''tue'']" "[''mon'', ''tue'']"
        "Array [10, 20 :: int]" Undefined]
  by (simp add: js_or_val_def)

text \<open>
  Claim C6. The three arrays are handed to the chart as they are: for every triple of
  arrays (the labels not empty, so that a chart is drawn) the labels and the two data
  fields of the configuration are the input arrays themselves.
\<close>

theorem arrays_passed_through:
  assumes "ls \<noteq> []"
  shows "\<exists>cfg. storage (Some cv) (Array ls) (Array rs) (Array vs) = Inr (New_Chart cv cfg)
           \<and> labels (chart_data cfg) = Array ls
           \<and> data (datasets (chart_data cfg) ! 0) = Array rs
           \<and> data (datasets (chart_data cfg) ! 1) = Array vs"
  using assms by (simp add: storage_def js_or_val_def js_length_def Let_def)

theorem arrays_passed_through_witness:
  "\<exists>cfg. storage (Some (1::nat)) (Array [''d1'', ''d2'', ''d3'']) (Array [5, 6, 7 :: int]) (Array [50, 60])
            = Inr (New_Chart 1 cfg)
         \<and> labels (chart_data cfg) = Array [''d1'', ''d2'', ''d3'']
         \<and> data (datasets (chart_data cfg) ! 0) = Array [5, 6, 7]
         \<and> data (datasets (chart_data cfg) ! 1) = Array [50, 60]"
  using arrays_passed_through
    [of "[''d1'', ''d2'', ''d3'']" "1::nat" "[5, 6, 7 :: int]" "[50, 60]"]
  by simp

text \<open>
  Claim C9. The widget draws nothing without data: with no canvas, or with the label
  global undefined or empty, it returns before \<^verbatim>\<open>new Chart\<close>. No input raises an error.
  Each undefined global is replaced by the empty array: undefined labels count as no
  data, and when a chart is drawn an undefined series reaches it as the empty array,
  never as \<^verbatim>\<open>undefined\<close>.
\<close>

theorem no_chart_without_data:
  "(canvas = None \<or> STORAGE_LABELS = Undefined \<or> STORAGE_LABELS = Array [] \<longrightarrow>
      storage canvas STORAGE_LABELS STORAGE_ROOT_PCT STORAGE_VOL_PCT = Inr No_chart)
   \<and> (\<forall>e. storage canvas STORAGE_LABELS STORAGE_ROOT_PCT STORAGE_VOL_PCT \<noteq> Inl e)
   \<and> (canvas = Some cv \<and> STORAGE_LABELS = Array ls \<and> ls \<noteq> [] \<longrightarrow>
      (\<exists>cfg. storage canvas STORAGE_LABELS STORAGE_ROOT_PCT STORAGE_VOL_PCT
                = Inr (New_Chart cv cfg)
         \<and> (STORAGE_ROOT_PCT = Undefined \<longrightarrow> data (datasets (chart_data cfg) ! 0) = Array [])
         \<and> (STORAGE_VOL_PCT = Undefined \<longrightarrow> data (datasets (chart_data cfg) ! 1) = Array [])
         \<and> data (datasets (chart_data cfg) ! 0) \<noteq> Undefined
         \<and> data (datasets (chart_data cfg) ! 1) \<noteq> Undefined
         \<and> labels (chart_data cfg) \<noteq> Undefined))"
  by (auto simp: storage_def js_or_val_def js_length_def Let_def
      split: option.splits jsval.splits sum.splits if_splits)

theorem no_chart_without_data_witness:
  "storage (None :: nat option) (Array [''mon'']) (Array [1::int]) (Array [2::int]) = Inr No_chart
   \<and> storage (Some (7::nat)) (Undefined :: string jsval) (Undefined :: int jsval)
         (Undefined :: int jsval) = Inr No_chart
   \<and> storage (Some (7::nat)) (Array ([] :: string list)) (Array [1::int])
         (Undefined :: int jsval) = Inr No_chart
   \<and> (\<exists>cfg. storage (Some (7::nat)) (Array [''mon'']) (Undefined :: int jsval)
               (Undefined :: int jsval) = Inr (New_Chart 7 cfg)
         \<and> data (datasets (chart_data cfg) ! 0) = Array []
         \<and> data (datasets (chart_data cfg) ! 1) = Array [])"
proof -
  have a: "storage (None :: nat option) (Array [''mon'']) (Array [1::int]) (Array [2::int])
             = Inr No_chart"
    using no_chart_without_data
      [of "None :: nat option" "Array [''mon'']" "Array [1::int]" "Array [2::int]"]
    by simp
  have b: "storage (Some (7::nat)) (Undefined :: string jsval) (Undefined :: int jsval)
         (Undefined :: int jsval) = Inr No_chart"
    using no_chart_without_data
      [of "Some (7::nat)" "Undefined :: string jsval" "Undefined :: int jsval"
          "Undefined :: int jsval"]
    by simp
  have c: "storage (Some (7::nat)) (Array ([] :: string list)) (Array [1::int])
         (Undefined :: int jsval) = Inr No_chart"
    using no_chart_without_data
      [of "Some (7::nat)" "Array ([] :: string list)" "Array [1::int]" "Undefined :: int jsval"]
    by simp
  have d: "\<exists>cfg. storage (Some (7::nat)) (Array [''mon'']) (Undefined :: int jsval)
               (Undefined :: int jsval) = Inr (New_Chart 7 cfg)
         \<and> data (datasets (chart_data cfg) ! 0) = Array []
         \<and> data (datasets (chart_data cfg) ! 1) = Array []"
    using no_chart_without_data
      [of "Some (7::nat)" "Array [''mon'']" "Undefined :: int jsval" "Undefined :: int jsval"
          7 "[''mon'']"]
    by auto
  from a b c d show ?thesis by (intro conjI)
qed

subsection \<open>Removing a chip\<close>

text \<open>
  Claim C4, as amended. A click on a chip's remove control clears the one parameter the
  chip names and nothing else. In the query-string controller every pair named
  \<^verbatim>\<open>f_<col>\<close> (kind \<^verbatim>\<open>filter\<close>) or \<^verbatim>\<open>s_<col>\<close> (kind \<^verbatim>\<open>sort\<close>) is deleted and every
  other pair is kept; a missing \<^verbatim>\<open>data-col\<close> reads as \<^verbatim>\<open>null\<close>. In the form controller,
  for a chip whose \<^verbatim>\<open>data-col\<close> is not empty and plain (no quote, backslash, line
  break, NUL or unpaired surrogate), the first input of the form named \<^verbatim>\<open>f_<col>\<close> (kind \<^verbatim>\<open>filter\<close>) or the first
  hidden input of the form named \<^verbatim>\<open>s_<col>\<close> (kind \<^verbatim>\<open>sort\<close>) gets the empty string as
  its value, and every other control is left as it was: the control stays in the form,
  and a later control of the same name keeps its value. For any other kind nothing is
  changed. When \<^verbatim>\<open>form.querySelector\<close> raises, the handler ends with that exception and
  nothing is changed.
\<close>

theorem chip_remove_frame:
  "(chip_kind ch = Some ''filter'' \<longrightarrow>
      chips_click loc True (Some ch) =
        Navigate (loc\<lparr>searchParams :=
          filter (\<lambda>p. fst p \<noteq> ''f_'' @ template_str (chip_col ch)) (searchParams loc)\<rparr>))
   \<and> (chip_kind ch = Some ''sort'' \<longrightarrow>
      chips_click loc True (Some ch) =
        Navigate (loc\<lparr>searchParams :=
          filter (\<lambda>p. fst p \<noteq> ''s_'' @ template_str (chip_col ch)) (searchParams loc)\<rparr>))
   \<and> (chip_kind ch \<noteq> Some ''filter'' \<and> chip_kind ch \<noteq> Some ''sort'' \<longrightarrow>
      chips_click loc True (Some ch) = Navigate loc)
   \<and> (col \<noteq> [] \<and> css_plain col \<longrightarrow>
      (\<exists>d'. chip_x_click engine \<lparr>chip_col = Some col, chip_kind = Some ''filter''\<rparr> d = (d', Submit)
          \<and> length d' = length d
          \<and> (\<forall>i<length d. d' ! i =
               (if (in_form (d ! i) \<and> input_named (''f_'' @ col) (d ! i))
                   \<and> (\<forall>j<i. \<not> (in_form (d ! j) \<and> input_named (''f_'' @ col) (d ! j)))
                then (d ! i)\<lparr>fvalue := ''''\<rparr> else d ! i))))
   \<and> (col \<noteq> [] \<and> css_plain col \<longrightarrow>
      (\<exists>d'. chip_x_click engine \<lparr>chip_col = Some col, chip_kind = Some ''sort''\<rparr> d = (d', Submit)
          \<and> length d' = length d
          \<and> (\<forall>i<length d. d' ! i =
               (if (in_form (d ! i) \<and> hidden_named (''s_'' @ col) (d ! i))
                   \<and> (\<forall>j<i. \<not> (in_form (d ! j) \<and> hidden_named (''s_'' @ col) (d ! j)))
                then (d ! i)\<lparr>fvalue := ''''\<rparr> else d ! i))))
   \<and> (col \<noteq> [] \<and> kind \<noteq> [] \<and> kind \<noteq> ''filter'' \<and> kind \<noteq> ''sort'' \<longrightarrow>
      chip_x_click engine \<lparr>chip_col = Some col, chip_kind = Some kind\<rparr> d = (d, Submit))
   \<and> (\<forall>e. col \<noteq> []
          \<and> css_querySelector engine in_form
               (''input[name='' @ dq @ ''f_'' @ col @ dq @ '']'') d = Inl e \<longrightarrow>
      chip_x_click engine \<lparr>chip_col = Some col, chip_kind = Some ''filter''\<rparr> d = (d, Throws e))
   \<and> (\<forall>e. col \<noteq> []
          \<and> css_querySelector engine in_form
               (''input[type='' @ dq @ ''hidden'' @ dq @ ''][name='' @ dq @ ''s_'' @ col @ dq @ '']'')
               d = Inl e \<longrightarrow>
      chip_x_click engine \<lparr>chip_col = Some col, chip_kind = Some ''sort''\<rparr> d = (d, Throws e))"
proof (intro conjI impI allI)
  assume "chip_kind ch = Some ''filter''"
  then show "chips_click loc True (Some ch) =
        Navigate (loc\<lparr>searchParams :=
          filter (\<lambda>p. fst p \<noteq> ''f_'' @ template_str (chip_col ch)) (searchParams loc)\<rparr>)"
    by (simp add: chips_click_def Let_def sp_delete_def)
next
  assume "chip_kind ch = Some ''sort''"
  then show "chips_click loc True (Some ch) =
        Navigate (loc\<lparr>searchParams :=
          filter (\<lambda>p. fst p \<noteq> ''s_'' @ template_str (chip_col ch)) (searchParams loc)\<rparr>)"
    by (simp add: chips_click_def Let_def sp_delete_def)
next
  assume "chip_kind ch \<noteq> Some ''filter'' \<and> chip_kind ch \<noteq> Some ''sort''"
  then show "chips_click loc True (Some ch) = Navigate loc"
    by (simp add: chips_click_def Let_def)
next
  assume a: "col \<noteq> [] \<and> css_plain col"
  then have "css_plain (''f_'' @ col)"
    by (simp only: css_plain_f)
  then have q: "css_querySelector engine in_form
        (''input[name='' @ dq @ (''f_'' @ col) @ dq @ '']'') d
      = Inr (querySelector (\<lambda>f. in_form f \<and> input_named (''f_'' @ col) f) d)"
    by (rule css_querySelector_input)
  have run: "chip_x_click engine \<lparr>chip_col = Some col, chip_kind = Some ''filter''\<rparr> d =
      ((case querySelector (\<lambda>f. in_form f \<and> input_named (''f_'' @ col) f) d of
          None \<Rightarrow> d | Some i \<Rightarrow> set_value i '''' d), Submit)"
    using a q by (simp add: chip_x_click_def)
  show "\<exists>d'. chip_x_click engine \<lparr>chip_col = Some col, chip_kind = Some ''filter''\<rparr> d = (d', Submit)
          \<and> length d' = length d
          \<and> (\<forall>i<length d. d' ! i =
               (if (in_form (d ! i) \<and> input_named (''f_'' @ col) (d ! i))
                   \<and> (\<forall>j<i. \<not> (in_form (d ! j) \<and> input_named (''f_'' @ col) (d ! j)))
                then (d ! i)\<lparr>fvalue := ''''\<rparr> else d ! i))"
    unfolding run
    using write_first_spec [where sel = "\<lambda>f. in_form f \<and> input_named (''f_'' @ col) f"
        and d = d and v = "''''"]
    by simp
next
  assume a: "col \<noteq> [] \<and> css_plain col"
  then have "css_plain (''s_'' @ col)"
    by (simp only: css_plain_s)
  then have q: "css_querySelector engine in_form
        (''input[type='' @ dq @ ''hidden'' @ dq @ ''][name='' @ dq @ (''s_'' @ col) @ dq @ '']'') d
      = Inr (querySelector (\<lambda>f. in_form f \<and> hidden_named (''s_'' @ col) f) d)"
    by (rule css_querySelector_hidden)
  have run: "chip_x_click engine \<lparr>chip_col = Some col, chip_kind = Some ''sort''\<rparr> d =
      ((case querySelector (\<lambda>f. in_form f \<and> hidden_named (''s_'' @ col) f) d of
          None \<Rightarrow> d | Some i \<Rightarrow> set_value i '''' d), Submit)"
    using a q by (simp add: chip_x_click_def)
  show "\<exists>d'. chip_x_click engine \<lparr>chip_col = Some col, chip_kind = Some ''sort''\<rparr> d = (d', Submit)
          \<and> length d' = length d
          \<and> (\<forall>i<length d. d' ! i =
               (if (in_form (d ! i) \<and> hidden_named (''s_'' @ col) (d ! i))
                   \<and> (\<forall>j<i. \<not> (in_form (d ! j) \<and> hidden_named (''s_'' @ col) (d ! j)))
                then (d ! i)\<lparr>fvalue := ''''\<rparr> else d ! i))"
    unfolding run
    using write_first_spec [where sel = "\<lambda>f. in_form f \<and> hidden_named (''s_'' @ col) f"
        and d = d and v = "''''"]
    by simp
next
  assume "col \<noteq> [] \<and> kind \<noteq> [] \<and> kind \<noteq> ''filter'' \<and> kind \<noteq> ''sort''"
  then show "chip_x_click engine \<lparr>chip_col = Some col, chip_kind = Some kind\<rparr> d = (d, Submit)"
    by (simp add: chip_x_click_def)
next
  fix e
  assume "col \<noteq> []
          \<and> css_querySelector engine in_form
               (''input[name='' @ dq @ ''f_'' @ col @ dq @ '']'') d = Inl e"
  then show "chip_x_click engine \<lparr>chip_col = Some col, chip_kind = Some ''filter''\<rparr> d
      = (d, Throws e)"
    by (simp add: chip_x_click_def)
next
  fix e
  assume "col \<noteq> []
          \<and> css_querySelector engine in_form
               (''input[type='' @ dq @ ''hidden'' @ dq @ ''][name='' @ dq @ ''s_'' @ col @ dq @ '']'')
               d = Inl e"
  then show "chip_x_click engine \<lparr>chip_col = Some col, chip_kind = Some ''sort''\<rparr> d
      = (d, Throws e)"
    by (simp add: chip_x_click_def)
qed

theorem chip_remove_frame_witness:
  "chips_click \<lparr>origin = ''http://h'', pathname = ''/t'',
       searchParams = [(''f_a'', ''1''), (''s_a'', ''asc''), (''f_a'', ''2'')], hash = ''''\<rparr>
     True (Some \<lparr>chip_col = Some ''a'', chip_kind = Some ''filter''\<rparr>)
     = Navigate \<lparr>origin = ''http://h'', pathname = ''/t'',
         searchParams = [(''s_a'', ''asc'')], hash = ''''\<rparr>
   \<and> chip_x_click (\<lambda>scope s d. Inl SyntaxError) \<lparr>chip_col = Some ''a'', chip_kind = Some ''filter''\<rparr>
       [\<lparr>fname = ''f_a'', fkind = Input_other, fvalue = ''1'', in_form = True, in_th = []\<rparr>,
        \<lparr>fname = ''s_a'', fkind = Input_hidden, fvalue = ''asc'', in_form = True, in_th = [0]\<rparr>]
     = ([\<lparr>fname = ''f_a'', fkind = Input_other, fvalue = '''', in_form = True, in_th = []\<rparr>,
         \<lparr>fname = ''s_a'', fkind = Input_hidden, fvalue = ''asc'', in_form = True, in_th = [0]\<rparr>],
        Submit)
   \<and> chip_x_click (\<lambda>scope s d. Inl SyntaxError) \<lparr>chip_col = Some ''a'', chip_kind = Some ''sort''\<rparr>
       [\<lparr>fname = ''f_a'', fkind = Input_other, fvalue = ''1'', in_form = True, in_th = []\<rparr>,
        \<lparr>fname = ''s_a'', fkind = Input_hidden, fvalue = ''asc'', in_form = True, in_th = [0]\<rparr>]
     = ([\<lparr>fname = ''f_a'', fkind = Input_other, fvalue = ''1'', in_form = True, in_th = []\<rparr>,
         \<lparr>fname = ''s_a'', fkind = Input_hidden, fvalue = '''', in_form = True, in_th = [0]\<rparr>],
        Submit)
   \<and> chip_x_click (\<lambda>scope s d. Inl SyntaxError) \<lparr>chip_col = Some ''a'', chip_kind = Some ''range''\<rparr>
       [\<lparr>fname = ''f_a'', fkind = Input_other, fvalue = ''1'', in_form = True, in_th = []\<rparr>,
        \<lparr>fname = ''s_a'', fkind = Input_hidden, fvalue = ''asc'', in_form = True, in_th = [0]\<rparr>]
     = ([\<lparr>fname = ''f_a'', fkind = Input_other, fvalue = ''1'', in_form = True, in_th = []\<rparr>,
         \<lparr>fname = ''s_a'', fkind = Input_hidden, fvalue = ''asc'', in_form = True, in_th = [0]\<rparr>],
        Submit)
   \<and> chip_x_click (\<lambda>scope s d. Inl SyntaxError)
       \<lparr>chip_col = Some (''a'' @ [CHR 0x22] @ ''b''), chip_kind = Some ''filter''\<rparr>
       [\<lparr>fname = ''f_a'', fkind = Input_other, fvalue = ''1'', in_form = True, in_th = []\<rparr>]
     = ([\<lparr>fname = ''f_a'', fkind = Input_other, fvalue = ''1'', in_form = True, in_th = []\<rparr>],
        Throws SyntaxError)"
proof -
  let ?L = "\<lparr>origin = ''http://h'', pathname = ''/t'',
       searchParams = [(''f_a'', ''1''), (''s_a'', ''asc''), (''f_a'', ''2'')], hash = ''''\<rparr>"
  let ?E = "\<lambda>(scope :: control \<Rightarrow> bool) (s :: string) (d :: doc). (Inl SyntaxError :: js_error + nat option)"
  let ?C = "\<lparr>chip_col = Some ''a'', chip_kind = Some ''filter''\<rparr>"
  let ?D = "[\<lparr>fname = ''f_a'', fkind = Input_other, fvalue = ''1'', in_form = True, in_th = []\<rparr>,
        \<lparr>fname = ''s_a'', fkind = Input_hidden, fvalue = ''asc'', in_form = True, in_th = [0]\<rparr>]"
  have plain: "''a'' \<noteq> [] \<and> css_plain ''a''" by (simp add: css_plain_def)
  note w = chip_remove_frame [of ?C ?L "''a''" ?E ?D "''range''"]
  from w have url: "chips_click ?L True (Some ?C) =
      Navigate (?L\<lparr>searchParams := filter (\<lambda>p. fst p \<noteq> ''f_'' @ template_str (chip_col ?C))
                                        (searchParams ?L)\<rparr>)"
    by simp
  from w plain obtain d1 where d1:
    "chip_x_click ?E \<lparr>chip_col = Some ''a'', chip_kind = Some ''filter''\<rparr> ?D = (d1, Submit)"
    "length d1 = length ?D"
    "\<forall>i<length ?D. d1 ! i =
       (if (in_form (?D ! i) \<and> input_named (''f_'' @ ''a'') (?D ! i))
           \<and> (\<forall>j<i. \<not> (in_form (?D ! j) \<and> input_named (''f_'' @ ''a'') (?D ! j)))
        then (?D ! i)\<lparr>fvalue := ''''\<rparr> else ?D ! i)"
    by blast
  from w plain obtain d2 where d2:
    "chip_x_click ?E \<lparr>chip_col = Some ''a'', chip_kind = Some ''sort''\<rparr> ?D = (d2, Submit)"
    "length d2 = length ?D"
    "\<forall>i<length ?D. d2 ! i =
       (if (in_form (?D ! i) \<and> hidden_named (''s_'' @ ''a'') (?D ! i))
           \<and> (\<forall>j<i. \<not> (in_form (?D ! j) \<and> hidden_named (''s_'' @ ''a'') (?D ! j)))
        then (?D ! i)\<lparr>fvalue := ''''\<rparr> else ?D ! i)"
    by blast
  from w have other:
    "chip_x_click ?E \<lparr>chip_col = Some ''a'', chip_kind = Some ''range''\<rparr> ?D = (?D, Submit)"
    by simp
  have "d1 ! 0 = (?D ! 0)\<lparr>fvalue := ''''\<rparr>" "d1 ! 1 = ?D ! 1"
    using d1(3) by (simp_all add: input_named_def)
  then have e1: "d1 = [(?D ! 0)\<lparr>fvalue := ''''\<rparr>, ?D ! 1]"
    using d1(2) by (auto simp: list_eq_iff_nth_eq less_Suc_eq)
  have "d2 ! 0 = ?D ! 0" "d2 ! 1 = (?D ! 1)\<lparr>fvalue := ''''\<rparr>"
    using d2(3) by (simp_all add: hidden_named_def)
  then have e2: "d2 = [?D ! 0, (?D ! 1)\<lparr>fvalue := ''''\<rparr>]"
    using d2(2) by (auto simp: list_eq_iff_nth_eq less_Suc_eq)
  let ?D3 = "[\<lparr>fname = ''f_a'', fkind = Input_other, fvalue = ''1'', in_form = True, in_th = []\<rparr>]"
  have raised: "''a'' @ [CHR 0x22] @ ''b'' \<noteq> []
      \<and> css_querySelector ?E in_form
           (''input[name='' @ dq @ ''f_'' @ (''a'' @ [CHR 0x22] @ ''b'') @ dq @ '']'') ?D3
         = Inl SyntaxError"
    by (simp add: css_querySelector_def selector_name_def dq_def css_plain_def)
  have t: "chip_x_click ?E \<lparr>chip_col = Some (''a'' @ [CHR 0x22] @ ''b''), chip_kind = Some ''filter''\<rparr> ?D3
      = (?D3, Throws SyntaxError)"
    using chip_remove_frame [of ?C ?L "''a'' @ [CHR 0x22] @ ''b''" ?E ?D3 "''range''"] raised
    by blast
  from url d1(1) d2(1) other e1 e2 t show ?thesis
    by (simp add: template_str_def)
qed

text \<open>
  The claim as first stated, that the parameter \<^verbatim>\<open>f_<col>\<close> is deleted, fails in the form
  controller: with two inputs named \<^verbatim>\<open>f_x\<close> in the form, both are still there after the
  click and the second is submitted with its value \<^verbatim>\<open>2\<close>.
\<close>

theorem chip_remove_frame_counterexample:
  "chip_x_click (\<lambda>scope s d. Inl SyntaxError) \<lparr>chip_col = Some ''x'', chip_kind = Some ''filter''\<rparr>
     [\<lparr>fname = ''f_x'', fkind = Input_other, fvalue = ''1'', in_form = True, in_th = []\<rparr>,
      \<lparr>fname = ''f_x'', fkind = Input_other, fvalue = ''2'', in_form = True, in_th = []\<rparr>]
   = ([\<lparr>fname = ''f_x'', fkind = Input_other, fvalue = '''', in_form = True, in_th = []\<rparr>,
       \<lparr>fname = ''f_x'', fkind = Input_other, fvalue = ''2'', in_form = True, in_th = []\<rparr>],
      Submit)"
proof -
  let ?D = "[\<lparr>fname = ''f_x'', fkind = Input_other, fvalue = ''1'', in_form = True, in_th = []\<rparr>,
      \<lparr>fname = ''f_x'', fkind = Input_other, fvalue = ''2'', in_form = True, in_th = []\<rparr>]"
  have "css_plain ''f_x''" by (simp add: css_plain_def)
  then have "css_querySelector (\<lambda>scope s d. Inl SyntaxError) in_form
        (''input[name='' @ dq @ ''f_x'' @ dq @ '']'') ?D
      = Inr (querySelector (\<lambda>f. in_form f \<and> input_named ''f_x'' f) ?D)"
    by (rule css_querySelector_input)
  then show ?thesis
    by (simp add: chip_x_click_def input_named_def set_value_def)
qed

subsection \<open>Encoding and reading a query\<close>

lemma hexdigit_table:
  "list_all (\<lambda>k. hexval (hexdigit k) = Some k
       \<and> hexdigit k \<noteq> CHR ''&'' \<and> hexdigit k \<noteq> CHR ''='' \<and> hexdigit k \<noteq> CHR ''+''
       \<and> hexdigit k \<noteq> CHR ''#'' \<and> hexdigit k \<noteq> CHR ''%'') [0..<16]"
  by code_simp

lemma hexval_hexdigit: "k < 16 \<Longrightarrow> hexval (hexdigit k) = Some k"
  using hexdigit_table by (simp add: list_all_iff)

lemma hexdigit_safe:
  "k < 16 \<Longrightarrow> hexdigit k \<notin> {CHR ''&'', CHR ''='', CHR ''+'', CHR ''#'', CHR ''%''}"
  using hexdigit_table by (simp add: list_all_iff)

lemma unreserved_safe:
  "unreserved c \<Longrightarrow> c \<notin> {CHR ''&'', CHR ''='', CHR ''+'', CHR ''#'', CHR ''%''}"
  by (auto simp: unreserved_def)

lemma hi_lo: "(of_char c :: nat) div 16 < 16" "(of_char c :: nat) mod 16 < 16"
proof -
  have "(of_char c :: nat) < 256" by simp
  then show "(of_char c :: nat) div 16 < 16" by linarith
  show "(of_char c :: nat) mod 16 < 16" by simp
qed

lemma encode_char_safe:
  "x \<in> set (encode_char c) \<Longrightarrow> x \<notin> {CHR ''&'', CHR ''='', CHR ''+'', CHR ''#''}"
  using unreserved_safe [of c] hexdigit_safe [OF hi_lo(1), of c] hexdigit_safe [OF hi_lo(2), of c]
  by (auto simp: encode_char_def split: if_splits)

lemma percent_encode_safe:
  "x \<in> set (percent_encode s) \<Longrightarrow> x \<notin> {CHR ''&'', CHR ''='', CHR ''+'', CHR ''#''}"
  unfolding percent_encode_def using encode_char_safe by auto

lemma percent_decode_encode_char:
  "percent_decode (encode_char c @ rest) = c # percent_decode rest"
proof (cases "unreserved c")
  case True
  then have "c \<noteq> CHR ''%''" using unreserved_safe [of c] by simp
  with True show ?thesis by (simp add: encode_char_def)
next
  case False
  have "char_of (16 * ((of_char c :: nat) div 16) + of_char c mod 16) = c"
    by simp
  with False show ?thesis
    by (simp add: encode_char_def hexval_hexdigit hi_lo)
qed

lemma percent_decode_percent_encode: "percent_decode (percent_encode s) = s"
proof (induction s)
  case Nil
  show ?case by (simp add: percent_encode_def)
next
  case (Cons c s)
  have "percent_encode (c # s) = encode_char c @ percent_encode s"
    by (simp add: percent_encode_def)
  then show ?case by (simp only: percent_decode_encode_char Cons.IH)
qed

lemma split_on_no_sep: "c \<notin> set xs \<Longrightarrow> split_on c xs = [xs]"
  by (induction xs) auto

lemma split_on_append:
  "c \<notin> set xs \<Longrightarrow> split_on c (xs @ c # ys) = xs # split_on c ys"
  by (induction xs) auto

lemma plus_to_space_id: "CHR ''+'' \<notin> set s \<Longrightarrow> plus_to_space s = s"
  by (induction s) (auto simp: plus_to_space_def)

lemma parse_query_clear:
  "parse_query (''limit='' @ percent_encode limit @ ''&format=html'')
     = [(''limit'', limit), (''format'', ''html'')]"
proof -
  let ?e = "percent_encode limit"
  have amp: "CHR ''&'' \<notin> set (''limit='' @ ?e)"
    using percent_encode_safe [of "CHR ''&''" limit] by auto
  have plus: "CHR ''+'' \<notin> set ?e"
    using percent_encode_safe [of "CHR ''+''" limit] by auto
  have "split_on CHR ''&'' ((''limit='' @ ?e) @ CHR ''&'' # ''format=html'')
          = (''limit='' @ ?e) # split_on CHR ''&'' ''format=html''"
    using amp by (rule split_on_append)
  moreover have "split_on CHR ''&'' ''format=html'' = [''format=html'']"
    by (rule split_on_no_sep) simp
  ultimately have sp: "split_on CHR ''&'' (''limit='' @ ?e @ ''&format=html'')
          = [''limit='' @ ?e, ''format=html'']"
    by simp
  have nm: "plus_to_space ''limit'' = ''limit''"
    by (simp add: plus_to_space_def)
  have p1: "parse_pair (''limit='' @ ?e) = (''limit'', limit)"
    using plus by (simp add: parse_pair_def plus_to_space_id percent_decode_percent_encode nm)
  have p2: "parse_pair ''format=html'' = (''format'', ''html'')"
    by (simp add: parse_pair_def plus_to_space_def)
  show ?thesis
    unfolding parse_query_def sp using p1 p2 by simp
qed

lemma querySelector_find:
  "map_option (\<lambda>i. d ! i) (querySelector sel d) = find sel d"
  by (induction d) (simp_all add: option.map_comp comp_def)

lemma querySelector_value:
  "(case querySelector sel d of None \<Rightarrow> a | Some i \<Rightarrow> g (d ! i))
     = (case find sel d of None \<Rightarrow> a | Some f \<Rightarrow> g f)"
  unfolding querySelector_find [symmetric]
  by (simp split: option.splits)

lemma dropWhile_until:
  "c \<notin> set xs \<Longrightarrow> dropWhile (\<lambda>x. x \<noteq> c) (xs @ c # ys) = c # ys"
  by (induction xs) auto

lemma takeWhile_all: "c \<notin> set xs \<Longrightarrow> takeWhile (\<lambda>x. x \<noteq> c) xs = xs"
  by (induction xs) auto

lemma query_of_href_path:
  assumes "CHR ''?'' \<notin> set path" and "CHR ''#'' \<notin> set path" and "CHR ''#'' \<notin> set q"
  shows "query_of_href (path @ CHR ''?'' # q) = q"
proof -
  have "takeWhile (\<lambda>c. c \<noteq> CHR ''#'') (path @ CHR ''?'' # q) = path @ CHR ''?'' # q"
    using assms(2,3) by (intro takeWhile_all) auto
  moreover have "dropWhile (\<lambda>c. c \<noteq> CHR ''?'') (path @ CHR ''?'' # q) = CHR ''?'' # q"
    using assms(1) by (rule dropWhile_until)
  ultimately show ?thesis by (simp only: query_of_href_def drop_Suc_Cons drop_0 One_nat_def)
qed

lemma clear_query_no_hash:
  "CHR ''#'' \<notin> set (''limit='' @ percent_encode limit @ ''&format=html'')"
  using percent_encode_safe [of "CHR ''#''" limit] by auto

lemma target_params_clear:
  assumes "CHR ''?'' \<notin> set path" and "CHR ''#'' \<notin> set path"
  shows "target_params (Navigate_href (path @ ''?limit='' @ percent_encode limit @ ''&format=html''))
           = Some [(''limit'', limit), (''format'', ''html'')]"
proof -
  have "path @ ''?limit='' @ percent_encode limit @ ''&format=html''
          = path @ CHR ''?'' # (''limit='' @ percent_encode limit @ ''&format=html'')"
    by simp
  then have "query_of_href (path @ ''?limit='' @ percent_encode limit @ ''&format=html'')
          = ''limit='' @ percent_encode limit @ ''&format=html''"
    using query_of_href_path [OF assms clear_query_no_hash [of limit]] by simp
  then show ?thesis
    by (simp only: target_params_def action.case parse_query_clear)
qed

lemma clearAll_filter:
  "clearAll loc =
     Navigate (loc\<lparr>searchParams :=
       filter (\<lambda>p. \<not> (startsWith (fst p) ''f_'' \<or> startsWith (fst p) ''s_'' \<or> fst p = ''limit''))
         (searchParams loc)\<rparr>)"
  unfolding clearAll_def
  by (simp only: fold_sp_delete_keys
      [where P = "\<lambda>k. startsWith k ''f_'' \<or> startsWith k ''s_'' \<or> k = ''limit''"])

lemma clearBtn_click_find:
  "clearBtn_click path d =
     (case encodeURIComponent
             (case find (\<lambda>f. in_form f \<and> input_named ''limit'' f) d of
                None \<Rightarrow> ''100'' | Some f \<Rightarrow> fvalue f) of
        Inl e \<Rightarrow> (d, Throws e)
      | Inr enc \<Rightarrow> (d, Navigate_href (path @ ''?limit='' @ enc @ ''&format=html'')))"
  unfolding clearBtn_click_def Let_def
  by (simp only: querySelector_value [where g = fvalue])

lemma clearBtn_click_cases:
  assumes "limit = (case find (\<lambda>f. in_form f \<and> fkind f \<noteq> Not_input \<and> fname f = ''limit'') d of
                      None \<Rightarrow> ''100'' | Some f \<Rightarrow> fvalue f)"
  shows "clearBtn_click path d =
           (if lone_surrogate limit then (d, Throws URIError)
            else (d, Navigate_href (path @ ''?limit='' @ percent_encode limit @ ''&format=html'')))"
  unfolding clearBtn_click_find assms input_named_def encodeURIComponent_def
  by simp

subsection \<open>Every handled click reloads\<close>




subsection \<open>Clearing everything\<close>

text \<open>
  Claim C10, as amended. When the limit holds no surrogate without its partner, the
  form controller's clear-all handler navigates to the path, then \<^verbatim>\<open>?limit=\<close>, the
  URL-encoded limit and \<^verbatim>\<open>&format=html\<close>, where the limit is the value of the first
  input of the form named \<^verbatim>\<open>limit\<close> and \<^verbatim>\<open>100\<close> when there is none. No earlier query
  parameter survives: the query of the target reads back as exactly the two pairs
  \<^verbatim>\<open>limit\<close> and \<^verbatim>\<open>format\<close>. When the limit does hold such a surrogate,
  \<^verbatim>\<open>encodeURIComponent\<close> raises URIError and the handler assigns nothing.
\<close>

theorem clearBtn_target:
  assumes "limit = (case find (\<lambda>f. in_form f \<and> fkind f \<noteq> Not_input \<and> fname f = ''limit'') d of
                      None \<Rightarrow> ''100'' | Some f \<Rightarrow> fvalue f)"
  shows "(\<not> lone_surrogate limit \<longrightarrow>
            clearBtn_click path d =
              (d, Navigate_href (path @ ''?limit='' @ percent_encode limit @ ''&format=html''))
            \<and> encodeURIComponent limit = Inr (percent_encode limit)
            \<and> parse_query (''limit='' @ percent_encode limit @ ''&format=html'')
                = [(''limit'', limit), (''format'', ''html'')]
            \<and> (CHR ''?'' \<notin> set path \<and> CHR ''#'' \<notin> set path \<longrightarrow>
                target_params (snd (clearBtn_click path d))
                  = Some [(''limit'', limit), (''format'', ''html'')]))
         \<and> (lone_surrogate limit \<longrightarrow>
            encodeURIComponent limit = Inl URIError
            \<and> clearBtn_click path d = (d, Throws URIError))"
proof (intro conjI impI)
  assume wf: "\<not> lone_surrogate limit"
  show run: "clearBtn_click path d =
      (d, Navigate_href (path @ ''?limit='' @ percent_encode limit @ ''&format=html''))"
    using wf by (simp add: clearBtn_click_cases [OF assms])
  show "encodeURIComponent limit = Inr (percent_encode limit)"
    using wf by (simp add: encodeURIComponent_def)
  show "parse_query (''limit='' @ percent_encode limit @ ''&format=html'')
          = [(''limit'', limit), (''format'', ''html'')]"
    by (rule parse_query_clear)
  assume "CHR ''?'' \<notin> set path \<and> CHR ''#'' \<notin> set path"
  then show "target_params (snd (clearBtn_click path d))
                  = Some [(''limit'', limit), (''format'', ''html'')]"
    unfolding run snd_conv using target_params_clear by blast
next
  assume ls: "lone_surrogate limit"
  then show "encodeURIComponent limit = Inl URIError"
    by (simp add: encodeURIComponent_def)
  show "clearBtn_click path d = (d, Throws URIError)"
    using ls by (simp add: clearBtn_click_cases [OF assms])
qed

theorem clearBtn_target_witness:
  "clearBtn_click ''/report''
     [\<lparr>fname = ''f_a'', fkind = Input_other, fvalue = ''x'', in_form = True, in_th = []\<rparr>,
      \<lparr>fname = ''limit'', fkind = Input_other, fvalue = ''5 0'', in_form = True, in_th = []\<rparr>]
   = ([\<lparr>fname = ''f_a'', fkind = Input_other, fvalue = ''x'', in_form = True, in_th = []\<rparr>,
      \<lparr>fname = ''limit'', fkind = Input_other, fvalue = ''5 0'', in_form = True, in_th = []\<rparr>],
      Navigate_href ''/report?limit=5%200&format=html'')
   \<and> target_params (snd (clearBtn_click ''/report''
     [\<lparr>fname = ''f_a'', fkind = Input_other, fvalue = ''x'', in_form = True, in_th = []\<rparr>,
      \<lparr>fname = ''limit'', fkind = Input_other, fvalue = ''5 0'', in_form = True, in_th = []\<rparr>]))
     = Some [(''limit'', ''5 0''), (''format'', ''html'')]
   \<and> clearBtn_click ''/report''
        [\<lparr>fname = ''limit'', fkind = Input_other, fvalue = [CHR 0x41, CHR 0xED, CHR 0xB0, CHR 0x80],
          in_form = True, in_th = []\<rparr>]
      = ([\<lparr>fname = ''limit'', fkind = Input_other, fvalue = [CHR 0x41, CHR 0xED, CHR 0xB0, CHR 0x80],
          in_form = True, in_th = []\<rparr>],
         Throws URIError)"
proof -
  let ?D = "[\<lparr>fname = ''f_a'', fkind = Input_other, fvalue = ''x'', in_form = True, in_th = []\<rparr>,
      \<lparr>fname = ''limit'', fkind = Input_other, fvalue = ''5 0'', in_form = True, in_th = []\<rparr>]"
  have h: "''5 0'' = (case find (\<lambda>f. in_form f \<and> fkind f \<noteq> Not_input \<and> fname f = ''limit'') ?D of
                      None \<Rightarrow> ''100'' | Some f \<Rightarrow> fvalue f)"
    by simp
  have wf: "\<not> lone_surrogate ''5 0''" by simp
  have e: "percent_encode ''5 0'' = ''5%200''"
    by (simp add: percent_encode_def encode_char_def unreserved_def hexdigit_def)
  note w = clearBtn_target [OF h, of "''/report''", THEN conjunct1, rule_format, OF wf]
  have a: "clearBtn_click ''/report'' ?D = (?D, Navigate_href ''/report?limit=5%200&format=html'')"
    using w [THEN conjunct1] by (simp add: e)
  have t: "target_params (snd (clearBtn_click ''/report'' ?D))
             = Some [(''limit'', ''5 0''), (''format'', ''html'')]"
    using w [THEN conjunct2, THEN conjunct2, THEN conjunct2] by simp
  let ?S = "[CHR 0x41, CHR 0xED, CHR 0xB0, CHR 0x80]"
  let ?D2 = "[\<lparr>fname = ''limit'', fkind = Input_other, fvalue = ?S, in_form = True, in_th = []\<rparr>]"
  have h2: "?S = (case find (\<lambda>f. in_form f \<and> fkind f \<noteq> Not_input \<and> fname f = ''limit'') ?D2 of
                      None \<Rightarrow> ''100'' | Some f \<Rightarrow> fvalue f)"
    by simp
  have ls: "lone_surrogate ?S" by simp
  have r: "clearBtn_click ''/report'' ?D2 = (?D2, Throws URIError)"
    using clearBtn_target [OF h2, of "''/report''", THEN conjunct2, rule_format, OF ls]
    by simp
  from a t r show ?thesis by (intro conjI)
qed

text \<open>
  The claim as first stated, that the target is always of that form, fails for a limit
  input whose value is a single high surrogate (the bytes \<^verbatim>\<open>ED A0 80\<close>): the handler
  ends with URIError and no navigation.
\<close>

theorem clearBtn_target_counterexample:
  "clearBtn_click ''/report''
     [\<lparr>fname = ''limit'', fkind = Input_other, fvalue = [CHR 0xED, CHR 0xA0, CHR 0x80],
       in_form = True, in_th = []\<rparr>]
   = ([\<lparr>fname = ''limit'', fkind = Input_other, fvalue = [CHR 0xED, CHR 0xA0, CHR 0x80],
       in_form = True, in_th = []\<rparr>],
      Throws URIError)"
  by (simp add: clearBtn_click_def input_named_def encodeURIComponent_def)

text \<open>
  Claim C8, as amended. The two clear-all handlers are not equivalent. Both drop every
  parameter whose name starts with \<^verbatim>\<open>f_\<close> or \<^verbatim>\<open>s_\<close>. The query-string controller also
  deletes \<^verbatim>\<open>limit\<close> and keeps every remaining parameter; the form controller keeps the
  limit (as its comment says) and sends exactly \<^verbatim>\<open>limit\<close> and \<^verbatim>\<open>format=html\<close>, or
  sends nothing when the limit cannot be encoded. So the two results differ from every
  starting state.
\<close>

theorem clear_all_handlers_differ:
  assumes "limit = (case find (\<lambda>f. in_form f \<and> fkind f \<noteq> Not_input \<and> fname f = ''limit'') d of
                      None \<Rightarrow> ''100'' | Some f \<Rightarrow> fvalue f)"
    and "CHR ''?'' \<notin> set (pathname loc)" and "CHR ''#'' \<notin> set (pathname loc)"
  shows "target_params (clearAll loc) =
           Some (filter (\<lambda>p. \<not> (startsWith (fst p) ''f_'' \<or> startsWith (fst p) ''s_''
                                   \<or> fst p = ''limit''))
             (searchParams loc))
         \<and> (\<not> lone_surrogate limit \<longrightarrow>
              target_params (snd (clearBtn_click (pathname loc) d))
                = Some [(''limit'', limit), (''format'', ''html'')])
         \<and> (lone_surrogate limit \<longrightarrow>
              snd (clearBtn_click (pathname loc) d) = Throws URIError
              \<and> target_params (snd (clearBtn_click (pathname loc) d)) = None)
         \<and> (\<forall>ps. target_params (clearAll loc) = Some ps
                  \<or> target_params (snd (clearBtn_click (pathname loc) d)) = Some ps \<longrightarrow>
               (\<forall>p \<in> set ps. \<not> startsWith (fst p) ''f_'' \<and> \<not> startsWith (fst p) ''s_''))
         \<and> target_params (clearAll loc) \<noteq> target_params (snd (clearBtn_click (pathname loc) d))"
proof -
  let ?keep = "\<lambda>p :: string \<times> string.
     \<not> (startsWith (fst p) ''f_'' \<or> startsWith (fst p) ''s_'' \<or> fst p = ''limit'')"
  let ?form = "target_params (snd (clearBtn_click (pathname loc) d))"
  have u: "target_params (clearAll loc) = Some (filter ?keep (searchParams loc))"
    by (simp add: clearAll_filter target_params_def)
  have f: "?form = Some [(''limit'', limit), (''format'', ''html'')]" if "\<not> lone_surrogate limit"
    using that target_params_clear [OF assms(2,3), of limit]
    by (simp add: clearBtn_click_cases [OF assms(1)])
  have t: "snd (clearBtn_click (pathname loc) d) = Throws URIError \<and> ?form = None"
    if "lone_surrogate limit"
    using that by (simp add: clearBtn_click_cases [OF assms(1)] target_params_def)
  have pre: "\<forall>ps. target_params (clearAll loc) = Some ps \<or> ?form = Some ps \<longrightarrow>
               (\<forall>p \<in> set ps. \<not> startsWith (fst p) ''f_'' \<and> \<not> startsWith (fst p) ''s_'')"
  proof (intro allI impI)
    fix ps
    assume "target_params (clearAll loc) = Some ps \<or> ?form = Some ps"
    then consider "ps = filter ?keep (searchParams loc)"
      | "ps = [(''limit'', limit), (''format'', ''html'')]"
      using u f t by (cases "lone_surrogate limit") auto
    then show "\<forall>p \<in> set ps. \<not> startsWith (fst p) ''f_'' \<and> \<not> startsWith (fst p) ''s_''"
      by cases (auto simp: startsWith_def)
  qed
  have "(''limit'', limit) \<notin> set (filter ?keep (searchParams loc))"
    by simp
  then have "filter ?keep (searchParams loc) \<noteq> [(''limit'', limit), (''format'', ''html'')]"
    by (metis list.set_intros(1))
  then have ne: "target_params (clearAll loc) \<noteq> ?form"
    using u f t by (cases "lone_surrogate limit") auto
  from u f t pre ne show ?thesis by blast
qed

theorem clear_all_handlers_differ_witness:
  "target_params (clearAll \<lparr>origin = ''http://h'', pathname = ''/t'',
       searchParams = [(''limit'', ''50''), (''f_a'', ''1''), (''format'', ''html''), (''s_b'', ''asc'')],
       hash = ''''\<rparr>)
     = Some [(''format'', ''html'')]
   \<and> target_params (snd (clearBtn_click ''/t''
       [\<lparr>fname = ''limit'', fkind = Input_other, fvalue = ''50'', in_form = True, in_th = []\<rparr>,
        \<lparr>fname = ''f_a'', fkind = Input_other, fvalue = ''1'', in_form = True, in_th = []\<rparr>]))
     = Some [(''limit'', ''50''), (''format'', ''html'')]"
proof -
  let ?L = "\<lparr>origin = ''http://h'', pathname = ''/t'',
       searchParams = [(''limit'', ''50''), (''f_a'', ''1''), (''format'', ''html''), (''s_b'', ''asc'')],
       hash = ''''\<rparr>"
  let ?D = "[\<lparr>fname = ''limit'', fkind = Input_other, fvalue = ''50'', in_form = True, in_th = []\<rparr>,
        \<lparr>fname = ''f_a'', fkind = Input_other, fvalue = ''1'', in_form = True, in_th = []\<rparr>]"
  have h1: "''50'' = (case find (\<lambda>f. in_form f \<and> fkind f \<noteq> Not_input \<and> fname f = ''limit'') ?D of
                      None \<Rightarrow> ''100'' | Some f \<Rightarrow> fvalue f)"
    by simp
  have h2: "CHR ''?'' \<notin> set (pathname ?L)" by simp
  have h3: "CHR ''#'' \<notin> set (pathname ?L)" by simp
  have wf: "\<not> lone_surrogate ''50''" by simp
  note w = clear_all_handlers_differ [OF h1 h2 h3]
  have a: "target_params (clearAll ?L) = Some [(''format'', ''html'')]"
    using w [THEN conjunct1] by (simp add: startsWith_def)
  have b: "target_params (snd (clearBtn_click ''/t'' ?D))
             = Some [(''limit'', ''50''), (''format'', ''html'')]"
    using w [THEN conjunct2, THEN conjunct1] wf by simp
  from a b show ?thesis by (rule conjI)
qed

text \<open>
  The claim as first stated, that both handlers leave the server the same query, fails
  on a page whose query and form both hold \<^verbatim>\<open>limit=50\<close> and a filter: one sends no
  parameter at all, the other \<^verbatim>\<open>limit=50&format=html\<close>.
\<close>

theorem clear_all_handlers_differ_counterexample:
  "target_params (clearAll \<lparr>origin = ''http://h'', pathname = ''/t'',
       searchParams = [(''limit'', ''50''), (''f_a'', ''1'')], hash = ''''\<rparr>)
     = Some []
   \<and> target_params (snd (clearBtn_click ''/t''
       [\<lparr>fname = ''limit'', fkind = Input_other, fvalue = ''50'', in_form = True, in_th = []\<rparr>,
        \<lparr>fname = ''f_a'', fkind = Input_other, fvalue = ''1'', in_form = True, in_th = []\<rparr>]))
     = Some [(''limit'', ''50''), (''format'', ''html'')]
   \<and> target_params (clearAll \<lparr>origin = ''http://h'', pathname = ''/t'',
       searchParams = [(''limit'', ''50''), (''f_a'', ''1'')], hash = ''''\<rparr>)
     \<noteq> target_params (snd (clearBtn_click ''/t''
       [\<lparr>fname = ''limit'', fkind = Input_other, fvalue = ''50'', in_form = True, in_th = []\<rparr>,
        \<lparr>fname = ''f_a'', fkind = Input_other, fvalue = ''1'', in_form = True, in_th = []\<rparr>]))"
proof -
  let ?D = "[\<lparr>fname = ''limit'', fkind = Input_other, fvalue = ''50'', in_form = True, in_th = []\<rparr>,
        \<lparr>fname = ''f_a'', fkind = Input_other, fvalue = ''1'', in_form = True, in_th = []\<rparr>]"
  have a: "target_params (clearAll \<lparr>origin = ''http://h'', pathname = ''/t'',
       searchParams = [(''limit'', ''50''), (''f_a'', ''1'')], hash = ''''\<rparr>) = Some []"
    by (simp add: clearAll_filter target_params_def startsWith_def)
  have h: "''50'' = (case find (\<lambda>f. in_form f \<and> fkind f \<noteq> Not_input \<and> fname f = ''limit'') ?D of
                      None \<Rightarrow> ''100'' | Some f \<Rightarrow> fvalue f)"
    by simp
  have "clearBtn_click ''/t'' ?D
     = (?D, Navigate_href (''/t'' @ ''?limit='' @ percent_encode ''50'' @ ''&format=html''))"
    using clearBtn_click_cases [OF h, of "''/t''"] by simp
  then have b: "target_params (snd (clearBtn_click ''/t'' ?D))
     = Some [(''limit'', ''50''), (''format'', ''html'')]"
    using target_params_clear [of "''/t''" "''50''"] by simp
  from a b show ?thesis by simp
qed

end
